theory Spec2Isabelle
  imports Main
begin

section \<open>The replication service of go-threads (service.go)\<close>

text \<open>
  A shallow embedding of \<^verbatim>\<open>service.go\<close>. The service is glue between external
  components (the log directory \<^verbatim>\<open>s.threads.store\<close>, the block store
  \<^verbatim>\<open>s.threads.bstore\<close>, the record codec \<^verbatim>\<open>cbor\<close>, libp2p crypto, pubsub).
  None of them is part of the file, so each of their operations is a field of the
  record \<open>externals\<close> below, and every function of the service takes that record as
  its first argument.

  The state the service acts on is the history of the effectful calls it has issued
  (type \<open>world\<close>, a list of \<open>event\<close>s, oldest first). Whatever an external component
  answers to a read may depend on that history, so every read takes the current
  \<open>world\<close>. An effectful call appends its event and then reports success or failure.

  Embedded are the records aggregator, \<^verbatim>\<open>requestPubKey\<close>,
  \<^verbatim>\<open>verifyRequestSignature\<close>, \<^verbatim>\<open>recordFromProto\<close>, \<^verbatim>\<open>handleNewLogs\<close>,
  \<^verbatim>\<open>handleLogUpdate\<close>, \<^verbatim>\<open>PushRecord\<close>, \<^verbatim>\<open>pushRecord\<close>, \<^verbatim>\<open>publish\<close> and
  \<^verbatim>\<open>subscribe\<close>. A long function is cut into named parts, each with the lines of
  \<^verbatim>\<open>service.go\<close> it stands for.
\<close>

subsection \<open>Data model\<close>

text \<open>
  A Go \<^verbatim>\<open>error\<close> value, with its message. External calls report failure this way.
\<close>

datatype error = Err string

fun error_string :: "error \<Rightarrow> string" where
  "error_string (Err msg) = msg"

text \<open>
  How a handler of the service can fail: by returning an error, or by a run-time panic.
  The only panics in \<^verbatim>\<open>service.go\<close> itself are dereferences of the nilable protobuf
  pointers \<^verbatim>\<open>Header.From\<close>, \<^verbatim>\<open>ThreadID\<close> and \<^verbatim>\<open>LogID\<close>, which the code
  never checks.
\<close>

datatype failure = Error error | Panic string

definition nil_deref :: failure where
  "nil_deref = Panic ''invalid memory address or nil pointer dereference''"

text \<open>
  \<^verbatim>\<open>peer.ID\<close>; \<open>peerString\<close> is its \<^verbatim>\<open>String()\<close> form, which the service compares
  instead of the identifiers themselves.
\<close>

datatype peer_id = PeerID string

fun peerString :: "peer_id \<Rightarrow> string" where
  "peerString (PeerID s) = s"

type_synonym thread_id = string
type_synonym cid = string
type_synonym bytes = string
type_synonym multiaddr = string
type_synonym pubkey = string
type_synonym privkey = string
type_synonym key = string

text \<open>\<^verbatim>\<open>pb.ProtoKey{Key: k}\<close>: a wrapper that is itself non-nil even when \<open>k\<close> is nil.\<close>

datatype proto_key = ProtoKey "key option"

text \<open>
  A value of the interface \<^verbatim>\<open>crypto.DecryptionKey\<close>: a key held by the directory, the
  wrapper taken from a request header, or the asymmetric key made from the host's
  private key. The directory answers a lookup with a key or with nil (\<open>None\<close>), the
  value that the code tests with \<^verbatim>\<open>key == nil\<close>.
\<close>

datatype decryption_key = DirectoryKey key | HeaderKey proto_key | HostKey string

text \<open>Opaque handles of the codec: wire records, decoded records, events, DAG nodes.\<close>

type_synonym pb_record = string
type_synonym thread_record = string
type_synonym thread_event = string
type_synonym node = string

datatype ttl = PermanentAddrTTL

text \<open>\<^verbatim>\<open>thread.LogInfo\<close>.\<close>

record log_info =
  log_ID :: peer_id
  log_PubKey :: pubkey
  log_FollowKey :: "key option"
  log_ReadKey :: "key option"
  log_Addrs :: "multiaddr list"
  log_Heads :: "cid list"

text \<open>
  Modelled from the spec: the type \<^verbatim>\<open>cbor.Logs\<close> is declared outside
  \<^verbatim>\<open>service.go\<close>, which reads its field \<^verbatim>\<open>Logs\<close> and calls its method
  \<^verbatim>\<open>Readable()\<close>. The specification describes the document as a set of log
  descriptors plus a boolean flag \<open>readable\<close>; \<open>doc_Readable\<close> is that flag.
\<close>

record logs_doc =
  doc_Logs :: "log_info list"
  doc_Readable :: bool

text \<open>\<^verbatim>\<open>thread.Info\<close>, of which the service reads the log identifiers only.\<close>

record thread_info =
  ti_Logs :: "peer_id list"

subsection \<open>The records aggregator (service.go, lines 376-407)\<close>

text \<open>
  \<^verbatim>\<open>type records struct { sync.RWMutex; m map[cid.Cid]thread.Record; s []thread.Record }\<close>.
  The lock serialises the calls, so a run of the aggregator is a sequence of calls.
\<close>

record records =
  rec_m :: "cid \<rightharpoonup> thread_record"
  rec_s :: "thread_record list"

definition newRecords :: records where
  "newRecords = \<lparr>rec_m = Map.empty, rec_s = []\<rparr>"

definition List_records :: "records \<Rightarrow> thread_record list" where
  "List_records r = rec_s r"

definition Store :: "cid \<Rightarrow> thread_record \<Rightarrow> records \<Rightarrow> records" where
  "Store k v r =
     (case rec_m r k of
        Some _ \<Rightarrow> r
      | None \<Rightarrow> r\<lparr>rec_m := (rec_m r)(k \<mapsto> v), rec_s := rec_s r @ [v]\<rparr>)"

text \<open>A sequence of \<^verbatim>\<open>Store\<close> calls, in the order they take the lock.\<close>

fun Store_all :: "(cid \<times> thread_record) list \<Rightarrow> records \<Rightarrow> records" where
  "Store_all [] r = r"
| "Store_all ((k, v) # kvs) r = Store_all kvs (Store k v r)"

text \<open>
  The specification of the aggregator, written from the claim's words: of a sequence of
  calls, keep for each CID the first call that stores it, in the order of the calls.
\<close>

fun first_insertions :: "cid set \<Rightarrow> (cid \<times> thread_record) list \<Rightarrow> (cid \<times> thread_record) list" where
  "first_insertions seen [] = []"
| "first_insertions seen ((k, v) # kvs) =
     (if k \<in> seen then first_insertions seen kvs
      else (k, v) # first_insertions (insert k seen) kvs)"

subsection \<open>Wire messages (pb.PushRecordRequest, pb.PushRecordReply)\<close>

text \<open>
  Every field that is a pointer in the generated Go struct is an option here, \<open>None\<close>
  being the nil pointer. \<^verbatim>\<open>Record\<close> is only ever handed to the codec, so it stays an
  opaque handle.
\<close>

record header =
  hdr_From :: "peer_id option"
  hdr_Signature :: bytes
  hdr_Key :: "pubkey option"
  hdr_FollowKey :: "proto_key option"
  hdr_ReadKeyLogID :: "peer_id option"

record request =
  req_Header :: "header option"
  req_ThreadID :: "thread_id option"
  req_LogID :: "peer_id option"
  req_Record :: pb_record

record reply =
  reply_NewAddr :: "multiaddr option"

text \<open>\<^verbatim>\<open>tserv.AddSettings\<close>, the fields \<^verbatim>\<open>pushRecord\<close> reads.\<close>

record add_settings =
  set_ThreadID :: thread_id
  set_KeyLog :: peer_id
  set_Addrs :: "multiaddr list"

text \<open>A pubsub message as the subscription delivers it.\<close>

record message =
  msg_From :: bytes
  msg_Data :: bytes

subsection \<open>Effects and external components\<close>

text \<open>
  One event for each effectful call the service issues: writes to the directory, the
  log factory, \<^verbatim>\<open>AddRecord\<close> and \<^verbatim>\<open>PutRecord\<close> of the owning component, the
  \<^verbatim>\<open>go\<close> statements, pubsub, and the logger. \<open>Go_pullHistory t l\<close> carries the value
  of \<^verbatim>\<open>lg.ID\<close> at the \<^verbatim>\<open>go\<close> statement; \<open>Go_push a r\<close> is the goroutine that pushes
  request \<open>r\<close> to address \<open>a\<close>. What a goroutine does once it runs is not part of the
  model.
\<close>

datatype event =
    AddLog thread_id log_info
  | AddAddr thread_id peer_id multiaddr ttl
  | CreateLog
  | AddRecord node thread_id peer_id
  | PutRecord thread_record thread_id peer_id
  | Go_pullHistory thread_id peer_id
  | Go_subscribe thread_id
  | Go_push multiaddr request
  | Subscribe string
  | Publish string bytes
  | Log_Error error
  | Log_Info string
  | Log_Debug string

type_synonym world = "event list"

text \<open>
  The operations of the external components, named as the code calls them. A read
  takes the world it is issued in. An effectful operation takes the world before the
  call and answers with its error result; the caller appends the event.
  \<^verbatim>\<open>thread.ID\<close> is represented by its \<^verbatim>\<open>String()\<close> form, which is also the topic.
\<close>

record externals =
  host_ID :: peer_id
  getPrivKey :: "world \<Rightarrow> privkey option"
  store_ThreadInfo :: "world \<Rightarrow> thread_id \<Rightarrow> error + thread_info"
  store_PubKey :: "world \<Rightarrow> thread_id \<Rightarrow> peer_id \<Rightarrow> error + pubkey option"
  store_FollowKey :: "world \<Rightarrow> thread_id \<Rightarrow> peer_id \<Rightarrow> error + key option"
  store_ReadKey :: "world \<Rightarrow> thread_id \<Rightarrow> peer_id \<Rightarrow> error + key option"
  store_Addrs :: "world \<Rightarrow> thread_id \<Rightarrow> peer_id \<Rightarrow> error + multiaddr list"
  store_AddLog :: "world \<Rightarrow> thread_id \<Rightarrow> log_info \<Rightarrow> error option"
  store_AddAddr :: "world \<Rightarrow> thread_id \<Rightarrow> peer_id \<Rightarrow> multiaddr \<Rightarrow> ttl \<Rightarrow> error option"
  bstore_Has :: "world \<Rightarrow> cid \<Rightarrow> error + bool"
  threads_createLog :: "world \<Rightarrow> error + log_info"
  threads_AddRecord :: "world \<Rightarrow> node \<Rightarrow> thread_id \<Rightarrow> peer_id \<Rightarrow> error option"
  threads_PutRecord :: "world \<Rightarrow> thread_record \<Rightarrow> thread_id \<Rightarrow> peer_id \<Rightarrow> error option"
  cbor_RecordFromProto :: "pb_record \<Rightarrow> decryption_key \<Rightarrow> error + thread_record"
  cbor_RecordToProto :: "world \<Rightarrow> thread_record \<Rightarrow> error + pb_record"
  cbor_EventFromRecord :: "world \<Rightarrow> thread_record \<Rightarrow> error + thread_event"
  event_GetBody :: "world \<Rightarrow> thread_event \<Rightarrow> decryption_key \<Rightarrow> error + node"
  cbor_LogsFromNode :: "node \<Rightarrow> error + logs_doc"
  cbor_NewLogs :: "log_info list \<Rightarrow> bool \<Rightarrow> error + node"
  record_Cid :: "thread_record \<Rightarrow> cid"
  record_Verify :: "thread_record \<Rightarrow> pubkey \<Rightarrow> error option"
  Record_Marshal :: "pb_record \<Rightarrow> error + bytes"
  Request_Marshal :: "request \<Rightarrow> error + bytes"
  proto_Unmarshal :: "bytes \<Rightarrow> error + request"
  ExtractPublicKey :: "peer_id \<Rightarrow> error + pubkey option"
  MatchesPublicKey :: "peer_id \<Rightarrow> pubkey \<Rightarrow> bool"
  PubKey_Verify :: "pubkey \<Rightarrow> bytes \<Rightarrow> bytes \<Rightarrow> bool \<times> error option"
  PrivKey_Sign :: "privkey \<Rightarrow> bytes \<Rightarrow> error + bytes"
  PrivKey_GetPublic :: "privkey \<Rightarrow> pubkey"
  NewDecryptionKey :: "privkey \<Rightarrow> error + decryption_key"
  NewMultiaddr :: "string \<Rightarrow> error + multiaddr"
  IDFromBytes :: "bytes \<Rightarrow> error + peer_id"
  pubsub_Subscribe :: "world \<Rightarrow> string \<Rightarrow> error option"
  pubsub_Publish :: "world \<Rightarrow> string \<Rightarrow> bytes \<Rightarrow> error option"

text \<open>
  Modelled from the spec: \<^verbatim>\<open>ma.ProtocolWithCode(ma.P_P2P).Name\<close>, a constant of the
  multiaddr library that is not in \<^verbatim>\<open>service.go\<close>. The specification gives the
  synthesised address the form \<^verbatim>\<open>/p2p/<this-peer-id>\<close>, so the name is \<^verbatim>\<open>p2p\<close>.
\<close>

definition P_P2P_Name :: string where
  "P_P2P_Name = ''p2p''"

subsection \<open>Request verification (service.go, lines 784-825)\<close>

definition requestPubKey :: "externals \<Rightarrow> request \<Rightarrow> failure + pubkey" where
  "requestPubKey ext r =
     (case req_Header r of
        None \<Rightarrow> Inl nil_deref
      | Some h \<Rightarrow>
          (case hdr_Key h of
             None \<Rightarrow>
               (case hdr_From h of
                  None \<Rightarrow> Inl nil_deref
                | Some from \<Rightarrow>
                    (case ExtractPublicKey ext from of
                       Inl e \<Rightarrow>
                         Inl (Error (Err (''cannot extract signing key: '' @ error_string e)))
                     | Inr None \<Rightarrow> Inl (Error (Err ''cannot extract signing key''))
                     | Inr (Some pubk) \<Rightarrow> Inr pubk))
           | Some k \<Rightarrow>
               (case hdr_From h of
                  None \<Rightarrow> Inl nil_deref
                | Some from \<Rightarrow>
                    if \<not> MatchesPublicKey ext from k
                    then Inl (Error (Err (''bad signing key; source ID '' @ peerString from
                                           @ '' doesn't match key'')))
                    else Inr k)))"

definition verifyRequestSignature ::
  "externals \<Rightarrow> pb_record \<Rightarrow> pubkey \<Rightarrow> bytes \<Rightarrow> error option" where
  "verifyRequestSignature ext rec pk sig =
     (case Record_Marshal ext rec of
        Inl e \<Rightarrow> Some e
      | Inr payload \<Rightarrow>
          (case PubKey_Verify ext pk payload sig of
             (ok, err) \<Rightarrow>
               if \<not> ok \<or> err \<noteq> None then Some (Err ''bad signature'') else None))"

definition recordFromProto ::
  "externals \<Rightarrow> pb_record \<Rightarrow> decryption_key \<Rightarrow> error + thread_record" where
  "recordFromProto ext rec k = cbor_RecordFromProto ext rec k"

subsection \<open>The new-log merger (service.go, lines 625-739)\<close>

text \<open>
  The loop of lines 677-704 over the entries of the document. It stops at the first
  entry that fails a check or whose upsert fails; what it did for the entries before
  stays done.
\<close>

fun handleNewLogs_loop ::
  "externals \<Rightarrow> world \<Rightarrow> thread_id \<Rightarrow> peer_id \<Rightarrow> thread_record \<Rightarrow> log_info list
     \<Rightarrow> error option \<times> world" where
  "handleNewLogs_loop ext w tid lid rec [] = (None, w)"
| "handleNewLogs_loop ext w tid lid rec (lg # lgs) =
     (if \<not> MatchesPublicKey ext (log_ID lg) (log_PubKey lg)
      then (Some (Err ''invalid log''), w)
      else
        (case (if peerString (log_ID lg) = peerString lid
               then record_Verify ext rec (log_PubKey lg) else None) of
           Some e \<Rightarrow> (Some e, w)
         | None \<Rightarrow>
             (case store_AddLog ext w tid lg of
                Some e \<Rightarrow> (Some e, w @ [AddLog tid lg])
              | None \<Rightarrow>
                  handleNewLogs_loop ext
                    (w @ [AddLog tid lg, Go_pullHistory tid (log_ID lg)]) tid lid rec lgs)))"

text \<open>
  Lines 638-666: the key for the event body, and whether the thread is new here.
\<close>

definition handleNewLogs_key ::
  "externals \<Rightarrow> world \<Rightarrow> thread_id \<Rightarrow> peer_id \<Rightarrow> thread_info
     \<Rightarrow> error + (decryption_key \<times> bool)" where
  "handleNewLogs_key ext w tid kid ti =
     (if length (ti_Logs ti) > 0
      then
        (case store_ReadKey ext w tid kid of
           Inl e \<Rightarrow> Inl e
         | Inr None \<Rightarrow> Inl (Err ''read key not found'')
         | Inr (Some k) \<Rightarrow> Inr (DirectoryKey k, False))
      else
        (case getPrivKey ext w of
           None \<Rightarrow> Inl (Err ''key for host not found'')
         | Some sk \<Rightarrow>
             (case NewDecryptionKey ext sk of
                Inl e \<Rightarrow> Inl e
              | Inr k \<Rightarrow> Inr (k, True))))"

text \<open>
  Lines 706-738: role assignment, for a document whose entries have all been added.
  The result is the triple of named results \<^verbatim>\<open>(ownLog, newAddr, err)\<close>.
\<close>

definition handleNewLogs_roles ::
  "externals \<Rightarrow> world \<Rightarrow> thread_id \<Rightarrow> peer_id \<Rightarrow> logs_doc \<Rightarrow> bool
     \<Rightarrow> (log_info option \<times> multiaddr option \<times> error option) \<times> world" where
  "handleNewLogs_roles ext w tid lid lgs newThread =
     (case (if doc_Readable lgs \<and> newThread
            then
              (case threads_createLog ext w of
                 Inl e \<Rightarrow> (Inl e, w @ [CreateLog])
               | Inr lg \<Rightarrow>
                   (case store_AddLog ext (w @ [CreateLog]) tid lg of
                      Some e \<Rightarrow> (Inl e, w @ [CreateLog, AddLog tid lg])
                    | None \<Rightarrow> (Inr (Some lg), w @ [CreateLog, AddLog tid lg])))
            else (Inr None, w)) of
        (Inl e, w1) \<Rightarrow> ((None, None, Some e), w1)
      | (Inr ownLog, w1) \<Rightarrow>
          (case (if \<not> doc_Readable lgs
                 then
                   (case NewMultiaddr ext (''/'' @ P_P2P_Name @ ''/'' @ peerString (host_ID ext)) of
                      Inl e \<Rightarrow> (None, Some e, w1)
                    | Inr a \<Rightarrow>
                        (Some a, store_AddAddr ext w1 tid lid a PermanentAddrTTL,
                         w1 @ [AddAddr tid lid a PermanentAddrTTL]))
                 else (None, None, w1)) of
             (newAddr, Some e, w2) \<Rightarrow> ((ownLog, newAddr, Some e), w2)
           | (newAddr, None, w2) \<Rightarrow>
               ((ownLog, newAddr, None), if newThread then w2 @ [Go_subscribe tid] else w2)))"

definition handleNewLogs ::
  "externals \<Rightarrow> world \<Rightarrow> thread_id \<Rightarrow> peer_id \<Rightarrow> peer_id \<Rightarrow> thread_record
     \<Rightarrow> (log_info option \<times> multiaddr option \<times> error option) \<times> world" where
  "handleNewLogs ext w tid lid kid rec =
     (case cbor_EventFromRecord ext w rec of
        Inl e \<Rightarrow> ((None, None, Some e), w)
      | Inr event \<Rightarrow>
     (case store_ThreadInfo ext w tid of
        Inl e \<Rightarrow> ((None, None, Some e), w)
      | Inr ti \<Rightarrow>
     (case handleNewLogs_key ext w tid kid ti of
        Inl e \<Rightarrow> ((None, None, Some e), w)
      | Inr (k, newThread) \<Rightarrow>
     (case event_GetBody ext w event k of
        Inl e \<Rightarrow> ((None, None, Some e), w)
      | Inr body \<Rightarrow>
     (case cbor_LogsFromNode ext body of
        Inl e \<Rightarrow> ((None, None, Some e), w)
      | Inr lgs \<Rightarrow>
     (case handleNewLogs_loop ext w tid lid rec (doc_Logs lgs) of
        (Some e, w1) \<Rightarrow> ((None, None, Some e), w1)
      | (None, w1) \<Rightarrow> handleNewLogs_roles ext w1 tid lid lgs newThread))))))"

subsection \<open>The log-update merger (service.go, lines 741-782)\<close>

fun handleLogUpdate_loop ::
  "externals \<Rightarrow> world \<Rightarrow> thread_id \<Rightarrow> peer_id \<Rightarrow> thread_record \<Rightarrow> log_info list
     \<Rightarrow> error option \<times> world" where
  "handleLogUpdate_loop ext w tid lid rec [] = (None, w)"
| "handleLogUpdate_loop ext w tid lid rec (lg # lgs) =
     (if \<not> MatchesPublicKey ext (log_ID lg) (log_PubKey lg)
      then (Some (Err ''invalid log''), w)
      else if peerString (log_ID lg) \<noteq> peerString lid
      then handleLogUpdate_loop ext w tid lid rec lgs
      else
        (case record_Verify ext rec (log_PubKey lg) of
           Some e \<Rightarrow> (Some e, w)
         | None \<Rightarrow>
             (case store_AddLog ext w tid lg of
                Some e \<Rightarrow> (Some e, w @ [AddLog tid lg])
              | None \<Rightarrow> handleLogUpdate_loop ext (w @ [AddLog tid lg]) tid lid rec lgs)))"

definition handleLogUpdate ::
  "externals \<Rightarrow> world \<Rightarrow> thread_id \<Rightarrow> peer_id \<Rightarrow> thread_record \<Rightarrow> error option \<times> world" where
  "handleLogUpdate ext w tid lid rec =
     (case cbor_EventFromRecord ext w rec of
        Inl e \<Rightarrow> (Some e, w)
      | Inr event \<Rightarrow>
     (case store_ReadKey ext w tid lid of
        Inl e \<Rightarrow> (Some e, w)
      | Inr None \<Rightarrow> (None, w)
      | Inr (Some k) \<Rightarrow>
     (case event_GetBody ext w event (DirectoryKey k) of
        Inl e \<Rightarrow> (Some e, w)
      | Inr body \<Rightarrow>
     (case cbor_LogsFromNode ext body of
        Inl e \<Rightarrow> (Some e, w)
      | Inr lgs \<Rightarrow> handleLogUpdate_loop ext w tid lid rec (doc_Logs lgs)))))"

subsection \<open>PushRecord (service.go, lines 98-196)\<close>

text \<open>
  Lines 116-128: the key that decodes the envelope. \<open>Inr None\<close> is the nil key.
\<close>

definition PushRecord_key ::
  "externals \<Rightarrow> world \<Rightarrow> request \<Rightarrow> header \<Rightarrow> failure + decryption_key option" where
  "PushRecord_key ext w req h =
     (case hdr_FollowKey h of
        Some fk \<Rightarrow> Inr (Some (HeaderKey fk))
      | None \<Rightarrow>
          (case req_ThreadID req of
             None \<Rightarrow> Inl nil_deref
           | Some tid \<Rightarrow>
               (case req_LogID req of
                  None \<Rightarrow> Inl nil_deref
                | Some lid \<Rightarrow>
                    (case store_FollowKey ext w tid lid of
                       Inl e \<Rightarrow> Inl (Error e)
                     | Inr None \<Rightarrow> Inr None
                     | Inr (Some k) \<Rightarrow> Inr (Some (DirectoryKey k))))))"

text \<open>Lines 187-195: the call of \<^verbatim>\<open>PutRecord\<close> that ends both branches.\<close>

definition PushRecord_put ::
  "externals \<Rightarrow> world \<Rightarrow> thread_record \<Rightarrow> thread_id \<Rightarrow> peer_id \<Rightarrow> reply
     \<Rightarrow> (failure + reply) \<times> world" where
  "PushRecord_put ext w rec tid lid rep =
     (case threads_PutRecord ext w rec tid lid of
        Some e \<Rightarrow> (Inl (Error e), w @ [PutRecord rec tid lid])
      | None \<Rightarrow> (Inr rep, w @ [PutRecord rec tid lid]))"

text \<open>Lines 142-195: what follows the check for a known record.\<close>

definition PushRecord_merge ::
  "externals \<Rightarrow> world \<Rightarrow> header \<Rightarrow> thread_id \<Rightarrow> peer_id \<Rightarrow> thread_record
     \<Rightarrow> (failure + reply) \<times> world" where
  "PushRecord_merge ext w h tid lid rec =
     (case store_PubKey ext w tid lid of
        Inl e \<Rightarrow> (Inl (Error e), w)
      | Inr None \<Rightarrow>
          (case handleNewLogs ext w tid lid
                  (case hdr_ReadKeyLogID h of Some k \<Rightarrow> k | None \<Rightarrow> PeerID []) rec of
             ((lg, newAddr, Some e), w1) \<Rightarrow> (Inl (Error e), w1)
           | ((lg, newAddr, None), w1) \<Rightarrow>
               (case lg of
                  None \<Rightarrow> PushRecord_put ext w1 rec tid lid \<lparr>reply_NewAddr = newAddr\<rparr>
                | Some own \<Rightarrow>
                    (case cbor_NewLogs ext [own] True of
                       Inl e \<Rightarrow> (Inl (Error e), w1)
                     | Inr lgs \<Rightarrow>
                         (case threads_AddRecord ext w1 lgs tid lid of
                            Some e \<Rightarrow> (Inl (Error e), w1 @ [AddRecord lgs tid lid])
                          | None \<Rightarrow>
                              PushRecord_put ext (w1 @ [AddRecord lgs tid lid]) rec tid lid
                                \<lparr>reply_NewAddr = newAddr\<rparr>))))
      | Inr (Some logpk) \<Rightarrow>
          (case record_Verify ext rec logpk of
             Some e \<Rightarrow> (Inl (Error e), w)
           | None \<Rightarrow>
               (case handleLogUpdate ext w tid lid rec of
                  (None, w1) \<Rightarrow>
                    PushRecord_put ext (w1 @ [Log_Info (''log '' @ peerString lid @ '' updated'')])
                      rec tid lid \<lparr>reply_NewAddr = None\<rparr>
                | (Some e, w1) \<Rightarrow>
                    PushRecord_put ext w1 rec tid lid \<lparr>reply_NewAddr = None\<rparr>)))"

text \<open>Lines 134-195: the decoded record is looked up in the block store, then merged.\<close>

definition PushRecord_admit ::
  "externals \<Rightarrow> world \<Rightarrow> request \<Rightarrow> header \<Rightarrow> thread_record \<Rightarrow> (failure + reply) \<times> world" where
  "PushRecord_admit ext w req h rec =
     (case bstore_Has ext w (record_Cid ext rec) of
        Inl e \<Rightarrow> (Inl (Error e), w)
      | Inr True \<Rightarrow> (Inr \<lparr>reply_NewAddr = None\<rparr>, w)
      | Inr False \<Rightarrow>
          (case req_ThreadID req of
             None \<Rightarrow> (Inl nil_deref, w)
           | Some tid \<Rightarrow>
               (case req_LogID req of
                  None \<Rightarrow> (Inl nil_deref, w)
                | Some lid \<Rightarrow> PushRecord_merge ext w h tid lid rec)))"

definition PushRecord :: "externals \<Rightarrow> world \<Rightarrow> request \<Rightarrow> (failure + reply) \<times> world" where
  "PushRecord ext w req =
     (case req_Header req of
        None \<Rightarrow> (Inl (Error (Err ''request header is required'')), w)
      | Some h \<Rightarrow>
     (case requestPubKey ext req of
        Inl f \<Rightarrow> (Inl f, w)
      | Inr reqpk \<Rightarrow>
     (case verifyRequestSignature ext (req_Record req) reqpk (hdr_Signature h) of
        Some e \<Rightarrow> (Inl (Error e), w)
      | None \<Rightarrow>
     (case PushRecord_key ext w req h of
        Inl f \<Rightarrow> (Inl f, w)
      | Inr None \<Rightarrow> (Inl (Error (Err ''follow key not found'')), w)
      | Inr (Some k) \<Rightarrow>
     (case recordFromProto ext (req_Record req) k of
        Inl e \<Rightarrow> (Inl (Error e), w)
      | Inr rec \<Rightarrow> PushRecord_admit ext w req h rec)))))"

subsection \<open>Outbound fan-out (service.go, lines 221-374) and publish (lines 616-623)\<close>

text \<open>The loop of lines 235-244 that collects the addresses of the other logs.\<close>

fun pushRecord_addrs ::
  "externals \<Rightarrow> world \<Rightarrow> thread_id \<Rightarrow> peer_id \<Rightarrow> peer_id list \<Rightarrow> multiaddr list
     \<Rightarrow> error + multiaddr list" where
  "pushRecord_addrs ext w tid lid [] addrs = Inr addrs"
| "pushRecord_addrs ext w tid lid (l # ls) addrs =
     (if peerString l = peerString lid
      then pushRecord_addrs ext w tid lid ls addrs
      else
        (case store_Addrs ext w tid l of
           Inl e \<Rightarrow> Inl e
         | Inr laddrs \<Rightarrow> pushRecord_addrs ext w tid lid ls (addrs @ laddrs)))"

text \<open>
  Lines 229-290: the addresses to push to and the request that is pushed. Nothing in
  this part has an effect, so every read sees the world of the call.
\<close>

definition pushRecord_request ::
  "externals \<Rightarrow> world \<Rightarrow> thread_record \<Rightarrow> thread_id \<Rightarrow> peer_id \<Rightarrow> add_settings
     \<Rightarrow> error + (multiaddr list \<times> request)" where
  "pushRecord_request ext w rec tid lid settings =
     (case store_ThreadInfo ext w (set_ThreadID settings) of
        Inl e \<Rightarrow> Inl e
      | Inr info \<Rightarrow>
     (case pushRecord_addrs ext w (set_ThreadID settings) lid (ti_Logs info) [] of
        Inl e \<Rightarrow> Inl e
      | Inr addrs \<Rightarrow>
     (case cbor_RecordToProto ext w rec of
        Inl e \<Rightarrow> Inl e
      | Inr pbrec \<Rightarrow>
     (case Record_Marshal ext pbrec of
        Inl e \<Rightarrow> Inl e
      | Inr payload \<Rightarrow>
     (case getPrivKey ext w of
        None \<Rightarrow> Inl (Err ''key for host not found'')
      | Some sk \<Rightarrow>
     (case PrivKey_Sign ext sk payload of
        Inl e \<Rightarrow> Inl e
      | Inr sig \<Rightarrow>
     (case store_ReadKey ext w (set_ThreadID settings) (set_KeyLog settings) of
        Inl e \<Rightarrow> Inl e
      | Inr logKey \<Rightarrow>
     (case store_FollowKey ext w tid lid of
        Inl e \<Rightarrow> Inl e
      | Inr followKey \<Rightarrow>
          Inr (addrs @ set_Addrs settings,
               \<lparr>req_Header = Some
                  \<lparr>hdr_From = Some (host_ID ext),
                   hdr_Signature = sig,
                   hdr_Key = Some (PrivKey_GetPublic ext sk),
                   hdr_FollowKey = Some (ProtoKey followKey),
                   hdr_ReadKeyLogID =
                     (case logKey of None \<Rightarrow> None | Some _ \<Rightarrow> Some (set_KeyLog settings))\<rparr>,
                req_ThreadID = Some tid,
                req_LogID = Some lid,
                req_Record = pbrec\<rparr>)))))))))"

definition publish ::
  "externals \<Rightarrow> world \<Rightarrow> thread_id \<Rightarrow> request \<Rightarrow> error option \<times> world" where
  "publish ext w tid req =
     (case Request_Marshal ext req of
        Inl e \<Rightarrow> (Some e, w)
      | Inr data \<Rightarrow> (pubsub_Publish ext w tid data, w @ [Publish tid data]))"

text \<open>
  The whole of \<^verbatim>\<open>pushRecord\<close>: one goroutine for each address, in the order of the
  addresses, then the publication, whose error is logged and not returned.
\<close>

definition pushRecord ::
  "externals \<Rightarrow> world \<Rightarrow> thread_record \<Rightarrow> thread_id \<Rightarrow> peer_id \<Rightarrow> add_settings
     \<Rightarrow> error option \<times> world" where
  "pushRecord ext w rec tid lid settings =
     (case pushRecord_request ext w rec tid lid settings of
        Inl e \<Rightarrow> (Some e, w)
      | Inr (addrs, req) \<Rightarrow>
          (case publish ext (w @ map (\<lambda>addr. Go_push addr req) addrs) tid req of
             (Some e, w1) \<Rightarrow> (None, w1 @ [Log_Error e])
           | (None, w1) \<Rightarrow> (None, w1)))"

subsection \<open>The subscription loop (service.go, lines 575-614)\<close>

text \<open>
  How a run of the loop over a finite sequence of deliveries ends: still waiting in
  \<^verbatim>\<open>sub.Next\<close> for a further message, left by \<^verbatim>\<open>break\<close>, or taken down by a panic
  of the handler.
\<close>

datatype loop_exit = Waiting | Stopped | Crashed string

text \<open>
  The deliveries are what successive calls of \<^verbatim>\<open>sub.Next\<close> return: an error or a
  message.
\<close>

fun subscribe_loop ::
  "externals \<Rightarrow> world \<Rightarrow> (error + message) list \<Rightarrow> loop_exit \<times> world" where
  "subscribe_loop ext w [] = (Waiting, w)"
| "subscribe_loop ext w (d # ds) =
     (case d of
        Inl e \<Rightarrow> (Stopped, w @ [Log_Error e])
      | Inr msg \<Rightarrow>
          (case IDFromBytes ext (msg_From msg) of
             Inl e \<Rightarrow> (Stopped, w @ [Log_Error e])
           | Inr from \<Rightarrow>
               if peerString from = peerString (host_ID ext)
               then subscribe_loop ext w ds
               else
                 (case proto_Unmarshal ext (msg_Data msg) of
                    Inl e \<Rightarrow> subscribe_loop ext (w @ [Log_Error e]) ds
                  | Inr req \<Rightarrow>
                      (case PushRecord ext
                              (w @ [Log_Debug (''received multicast request from ''
                                               @ peerString from)]) req of
                         (Inl (Panic p), w1) \<Rightarrow> (Crashed p, w1)
                       | (Inl (Error e), w1) \<Rightarrow> subscribe_loop ext (w1 @ [Log_Error e]) ds
                       | (Inr rep, w1) \<Rightarrow> subscribe_loop ext w1 ds))))"

definition subscribe ::
  "externals \<Rightarrow> world \<Rightarrow> thread_id \<Rightarrow> (error + message) list \<Rightarrow> loop_exit \<times> world" where
  "subscribe ext w tid deliveries =
     (case pubsub_Subscribe ext w tid of
        Some e \<Rightarrow> (Stopped, w @ [Subscribe tid, Log_Error e])
      | None \<Rightarrow> subscribe_loop ext (w @ [Subscribe tid]) deliveries)"

subsection \<open>A small instance of the external components\<close>

text \<open>
  A directory that holds the logs added so far, a block store that holds the records
  put so far, and toy crypto in which the public key of peer \<open>P\<close> is the string \<open>P\<close>
  and a signature is the key followed by the payload. It serves to run the service on
  concrete requests.
\<close>

fun demo_logs :: "world \<Rightarrow> thread_id \<Rightarrow> log_info list" where
  "demo_logs [] tid = []"
| "demo_logs (AddLog t lg # w) tid = (if t = tid then lg # demo_logs w tid else demo_logs w tid)"
| "demo_logs (ev # w) tid = demo_logs w tid"

definition demo_log :: "world \<Rightarrow> thread_id \<Rightarrow> peer_id \<Rightarrow> log_info option" where
  "demo_log w tid lid = find (\<lambda>lg. log_ID lg = lid) (rev (demo_logs w tid))"

fun demo_has :: "world \<Rightarrow> cid \<Rightarrow> bool" where
  "demo_has [] c = False"
| "demo_has (PutRecord r t l # w) c = (r = c \<or> demo_has w c)"
| "demo_has (ev # w) c = demo_has w c"

definition demo_entry :: "string \<Rightarrow> key option \<Rightarrow> log_info" where
  "demo_entry p rk =
     \<lparr>log_ID = PeerID p, log_PubKey = p, log_FollowKey = Some (''fk'' @ p),
      log_ReadKey = rk, log_Addrs = [''/p2p/'' @ p], log_Heads = []\<rparr>"

definition demo_doc :: "node \<Rightarrow> error + logs_doc" where
  "demo_doc body =
     (if body = ''follow'' then
        Inr \<lparr>doc_Logs = [demo_entry ''A'' None], doc_Readable = False\<rparr>
      else if body = ''read'' then
        Inr \<lparr>doc_Logs = [demo_entry ''A'' (Some ''rkA'')], doc_Readable = True\<rparr>
      else if body = ''join'' then
        Inr \<lparr>doc_Logs = [demo_entry ''C'' (Some ''rkC'')], doc_Readable = True\<rparr>
      else if body = ''mixed'' then
        Inr \<lparr>doc_Logs = [demo_entry ''A'' (Some ''rkA''),
                          (demo_entry ''C'' (Some ''rkC''))\<lparr>log_PubKey := ''X''\<rparr>],
             doc_Readable = True\<rparr>
      else Inl (Err ''not a logs document''))"

definition demo_request :: "string \<Rightarrow> pb_record \<Rightarrow> request" where
  "demo_request p rec =
     \<lparr>req_Header = Some
        \<lparr>hdr_From = Some (PeerID p), hdr_Signature = p @ rec, hdr_Key = Some p,
         hdr_FollowKey = Some (ProtoKey (Some (''fk'' @ p))), hdr_ReadKeyLogID = None\<rparr>,
      req_ThreadID = Some ''t'', req_LogID = Some (PeerID p), req_Record = rec\<rparr>"

definition demo :: externals where
  "demo =
     \<lparr>host_ID = PeerID ''B'',
      getPrivKey = (\<lambda>w. Some ''B''),
      store_ThreadInfo = (\<lambda>w tid. Inr \<lparr>ti_Logs = remdups (map log_ID (demo_logs w tid))\<rparr>),
      store_PubKey = (\<lambda>w tid lid. Inr (map_option log_PubKey (demo_log w tid lid))),
      store_FollowKey = (\<lambda>w tid lid. Inr (Option.bind (demo_log w tid lid) log_FollowKey)),
      store_ReadKey = (\<lambda>w tid lid. Inr (Option.bind (demo_log w tid lid) log_ReadKey)),
      store_Addrs = (\<lambda>w tid lid.
         Inr (case demo_log w tid lid of None \<Rightarrow> [] | Some lg \<Rightarrow> log_Addrs lg)),
      store_AddLog = (\<lambda>w tid lg. None),
      store_AddAddr = (\<lambda>w tid lid a t. None),
      bstore_Has = (\<lambda>w c. Inr (demo_has w c)),
      threads_createLog = (\<lambda>w. Inr (demo_entry ''Bown'' (Some ''rkBown''))),
      threads_AddRecord = (\<lambda>w n tid lid. None),
      threads_PutRecord = (\<lambda>w r tid lid. None),
      cbor_RecordFromProto = (\<lambda>pb k. Inr pb),
      cbor_RecordToProto = (\<lambda>w r. Inr r),
      cbor_EventFromRecord = (\<lambda>w r. Inr r),
      event_GetBody = (\<lambda>w ev k. Inr ev),
      cbor_LogsFromNode = demo_doc,
      cbor_NewLogs = (\<lambda>lgs readable. Inr ''logs''),
      record_Cid = (\<lambda>r. r),
      record_Verify = (\<lambda>r pk. None),
      Record_Marshal = (\<lambda>pb. Inr pb),
      Request_Marshal = (\<lambda>req. Inr (req_Record req)),
      proto_Unmarshal = (\<lambda>data.
         if data = [] then Inl (Err ''unexpected EOF'') else Inr (demo_request ''A'' data)),
      ExtractPublicKey = (\<lambda>p. Inr (Some (peerString p))),
      MatchesPublicKey = (\<lambda>p k. peerString p = k),
      PubKey_Verify = (\<lambda>pk payload sig. (sig = pk @ payload, None)),
      PrivKey_Sign = (\<lambda>sk payload. Inr (sk @ payload)),
      PrivKey_GetPublic = (\<lambda>sk. sk),
      NewDecryptionKey = (\<lambda>sk. Inr (HostKey sk)),
      NewMultiaddr = (\<lambda>s. Inr s),
      IDFromBytes = (\<lambda>b. if b = [] then Inl (Err ''empty peer id'') else Inr (PeerID b)),
      pubsub_Subscribe = (\<lambda>w topic. None),
      pubsub_Publish = (\<lambda>w topic data. None)\<rparr>"

text \<open>A request that carries neither a public key nor a follow key.\<close>

definition demo_bare_request :: "string \<Rightarrow> pb_record \<Rightarrow> request" where
  "demo_bare_request p rec =
     \<lparr>req_Header = Some
        \<lparr>hdr_From = Some (PeerID p), hdr_Signature = p @ rec, hdr_Key = None,
         hdr_FollowKey = None, hdr_ReadKeyLogID = None\<rparr>,
      req_ThreadID = Some ''t'', req_LogID = Some (PeerID p), req_Record = rec\<rparr>"

subsection \<open>Notions used to state the properties\<close>

text \<open>The events that a run starting in world \<open>w\<close> added to reach world \<open>w'\<close>.\<close>

definition new_events :: "world \<Rightarrow> world \<Rightarrow> event list" where
  "new_events w w' = drop (length w) w'"

text \<open>
  What the loop of the new-log merger issues for entries that all pass: the upsert
  and the history pull of each entry, in the order of the document.
\<close>

definition entry_events :: "thread_id \<Rightarrow> log_info list \<Rightarrow> event list" where
  "entry_events tid lgs = concat (map (\<lambda>lg. [AddLog tid lg, Go_pullHistory tid (log_ID lg)]) lgs)"


text \<open>
  The contract of the block store that idempotence of a repeated push rests on: once
  \<^verbatim>\<open>PutRecord\<close> has returned without error, \<^verbatim>\<open>Has\<close> finds the record's CID.
\<close>

definition put_then_has :: "externals \<Rightarrow> bool" where
  "put_then_has ext \<longleftrightarrow>
     (\<forall>w rec tid lid. threads_PutRecord ext w rec tid lid = None \<longrightarrow>
        bstore_Has ext (w @ [PutRecord rec tid lid]) (record_Cid ext rec) = Inr True)"

text \<open>The first occurrence of event \<open>a\<close> in a world comes before every occurrence of \<open>b\<close>.\<close>

definition occurs_before :: "event \<Rightarrow> event \<Rightarrow> world \<Rightarrow> bool" where
  "occurs_before a b w \<longleftrightarrow> a \<in> set (takeWhile (\<lambda>ev. ev \<noteq> b) w)"

subsection \<open>Properties of the records aggregator\<close>

lemma Store_known: "rec_m r k = Some u \<Longrightarrow> Store k v r = r"
  by (simp add: Store_def)

lemma Store_fresh_s: "rec_m r k = None \<Longrightarrow> rec_s (Store k v r) = rec_s r @ [v]"
  by (simp add: Store_def)

lemma Store_fresh_m: "rec_m r k = None \<Longrightarrow> rec_m (Store k v r) = (rec_m r)(k \<mapsto> v)"
  by (simp add: Store_def)

lemma Store_all_rec_s:
  "rec_s (Store_all kvs r) = rec_s r @ map snd (first_insertions (dom (rec_m r)) kvs)"
proof (induction kvs arbitrary: r)
  case Nil
  show ?case by simp
next
  case (Cons kv kvs)
  obtain k v where kv: "kv = (k, v)" by (cases kv)
  show ?case
  proof (cases "rec_m r k")
    case None
    have fresh: "k \<notin> dom (rec_m r)" using None by (simp add: domIff)
    have "dom (rec_m (Store k v r)) = insert k (dom (rec_m r))"
      by (simp only: Store_fresh_m [OF None] dom_fun_upd) simp
    then have "rec_s (Store_all kvs (Store k v r))
        = (rec_s r @ [v]) @ map snd (first_insertions (insert k (dom (rec_m r))) kvs)"
      by (simp only: Cons.IH Store_fresh_s [OF None])
    with fresh show ?thesis by (simp add: kv)
  next
    case (Some u)
    have known: "k \<in> dom (rec_m r)" using Some by (simp add: domIff)
    have "rec_s (Store_all kvs (Store k v r))
        = rec_s r @ map snd (first_insertions (dom (rec_m r)) kvs)"
      by (simp only: Cons.IH Store_known [OF Some])
    with known show ?thesis by (simp add: kv)
  qed
qed

lemma first_insertions_keys:
  "fst ` set (first_insertions seen kvs) = fst ` set kvs - seen"
  by (induction seen kvs rule: first_insertions.induct) auto

lemma first_insertions_unseen:
  "(k, v) \<in> set (first_insertions seen kvs) \<Longrightarrow> k \<notin> seen"
  using first_insertions_keys [of seen kvs] by force

lemma first_insertions_distinct:
  "distinct (map fst (first_insertions seen kvs))"
  by (induction seen kvs rule: first_insertions.induct)
     (auto dest: first_insertions_unseen)

text \<open>
  C10. \<^verbatim>\<open>Store(cid, rec)\<close> does nothing when \<open>cid\<close> is already a key of the map, and
  otherwise appends \<open>rec\<close> to the slice and adds \<open>cid\<close> to the map. So after any
  sequence of \<^verbatim>\<open>Store\<close> calls on a fresh aggregator, \<^verbatim>\<open>List\<close> returns the records of
  the first insertions, in the order of insertion: one record for each distinct CID
  stored.
\<close>

theorem records_Store_List:
  "(k \<in> dom (rec_m r) \<longrightarrow> Store k v r = r)
   \<and> (k \<notin> dom (rec_m r) \<longrightarrow>
        rec_s (Store k v r) = rec_s r @ [v] \<and> rec_m (Store k v r) = (rec_m r)(k \<mapsto> v))
   \<and> List_records (Store_all kvs newRecords) = map snd (first_insertions {} kvs)
   \<and> distinct (map fst (first_insertions {} kvs))
   \<and> fst ` set (first_insertions {} kvs) = fst ` set kvs
   \<and> length (List_records (Store_all kvs newRecords)) = card (fst ` set kvs)"
proof -
  have a: "k \<in> dom (rec_m r) \<longrightarrow> Store k v r = r"
    by (auto simp: Store_def)
  have b: "k \<notin> dom (rec_m r) \<longrightarrow>
        rec_s (Store k v r) = rec_s r @ [v] \<and> rec_m (Store k v r) = (rec_m r)(k \<mapsto> v)"
    by (auto simp: Store_def domIff)
  have c: "List_records (Store_all kvs newRecords) = map snd (first_insertions {} kvs)"
    by (simp add: List_records_def Store_all_rec_s newRecords_def)
  have d: "distinct (map fst (first_insertions {} kvs))"
    by (rule first_insertions_distinct)
  have e: "fst ` set (first_insertions {} kvs) = fst ` set kvs"
    using first_insertions_keys [of "{}" kvs] by simp
  have "card (set (map fst (first_insertions {} kvs))) = length (map fst (first_insertions {} kvs))"
    using d by (rule distinct_card)
  then have f: "length (List_records (Store_all kvs newRecords)) = card (fst ` set kvs)"
    using c e by simp
  from a b c d e f show ?thesis by blast
qed

theorem records_Store_List_witness:
  "List_records (Store_all [(''c1'', ''r1''), (''c2'', ''r2''), (''c1'', ''r3'')] newRecords)
     = [''r1'', ''r2'']
   \<and> Store ''c1'' ''r3'' (Store ''c1'' ''r1'' newRecords) = Store ''c1'' ''r1'' newRecords"
proof -
  have "''c1'' \<in> dom (rec_m (Store ''c1'' ''r1'' newRecords))"
    by (simp add: Store_def newRecords_def)
  moreover have "List_records (Store_all [(''c1'', ''r1''), (''c2'', ''r2''), (''c1'', ''r3'')] newRecords)
     = map snd (first_insertions {} [(''c1'', ''r1''), (''c2'', ''r2''), (''c1'', ''r3'')])"
    using records_Store_List [of "''c1''" "Store ''c1'' ''r1'' newRecords" "''r3''"
        "[(''c1'', ''r1''), (''c2'', ''r2''), (''c1'', ''r3'')]"] by blast
  ultimately show ?thesis
    using records_Store_List [of "''c1''" "Store ''c1'' ''r1'' newRecords" "''r3''"
        "[(''c1'', ''r1''), (''c2'', ''r2''), (''c1'', ''r3'')]"] by simp
qed

subsection \<open>The small instance, field by field\<close>

lemma demo_sel:
  "host_ID demo = PeerID ''B''"
  "getPrivKey demo w = Some ''B''"
  "store_ThreadInfo demo w tid = Inr \<lparr>ti_Logs = remdups (map log_ID (demo_logs w tid))\<rparr>"
  "store_PubKey demo w tid lid = Inr (map_option log_PubKey (demo_log w tid lid))"
  "store_FollowKey demo w tid lid = Inr (Option.bind (demo_log w tid lid) log_FollowKey)"
  "store_ReadKey demo w tid lid = Inr (Option.bind (demo_log w tid lid) log_ReadKey)"
  "store_Addrs demo w tid lid = Inr (case demo_log w tid lid of None \<Rightarrow> [] | Some lg \<Rightarrow> log_Addrs lg)"
  "store_AddLog demo w tid lg = None"
  "store_AddAddr demo w tid lid a t = None"
  "bstore_Has demo w c = Inr (demo_has w c)"
  "threads_createLog demo w = Inr (demo_entry ''Bown'' (Some ''rkBown''))"
  "threads_AddRecord demo w n tid lid = None"
  "threads_PutRecord demo w r tid lid = None"
  "cbor_RecordFromProto demo pb k = Inr pb"
  "cbor_RecordToProto demo w r = Inr r"
  "cbor_EventFromRecord demo w r = Inr r"
  "event_GetBody demo w ev k = Inr ev"
  "cbor_LogsFromNode demo = demo_doc"
  "cbor_NewLogs demo lgs readable = Inr ''logs''"
  "record_Cid demo r = r"
  "record_Verify demo r pk = None"
  "Record_Marshal demo pb = Inr pb"
  "Request_Marshal demo req = Inr (req_Record req)"
  "proto_Unmarshal demo data =
     (if data = [] then Inl (Err ''unexpected EOF'') else Inr (demo_request ''A'' data))"
  "ExtractPublicKey demo p = Inr (Some (peerString p))"
  "MatchesPublicKey demo p pk = (peerString p = pk)"
  "PubKey_Verify demo pk payload sg = (sg = pk @ payload, None)"
  "PrivKey_Sign demo sk payload = Inr (sk @ payload)"
  "PrivKey_GetPublic demo sk = sk"
  "NewDecryptionKey demo sk = Inr (HostKey sk)"
  "NewMultiaddr demo s = Inr s"
  "IDFromBytes demo b = (if b = [] then Inl (Err ''empty peer id'') else Inr (PeerID b))"
  "pubsub_Subscribe demo w topic = None"
  "pubsub_Publish demo w topic data = None"
  by (simp_all add: demo_def)

lemma demo_entry_sel:
  "log_ID (demo_entry p rk) = PeerID p"
  "log_PubKey (demo_entry p rk) = p"
  "log_FollowKey (demo_entry p rk) = Some (''fk'' @ p)"
  "log_ReadKey (demo_entry p rk) = rk"
  "log_Addrs (demo_entry p rk) = [''/p2p/'' @ p]"
  by (simp_all add: demo_entry_def)

subsection \<open>Request verification and key selection\<close>

lemma requestPubKey_decoder [simp]:
  "requestPubKey (ext\<lparr>cbor_RecordFromProto := f\<rparr>) req = requestPubKey ext req"
  by (simp add: requestPubKey_def cong: option.case_cong sum.case_cong if_cong)

lemma verifyRequestSignature_decoder [simp]:
  "verifyRequestSignature (ext\<lparr>cbor_RecordFromProto := f\<rparr>) r pk sg = verifyRequestSignature ext r pk sg"
  by (simp add: verifyRequestSignature_def cong: sum.case_cong)

lemma PushRecord_key_decoder [simp]:
  "PushRecord_key (ext\<lparr>cbor_RecordFromProto := f\<rparr>) w req h = PushRecord_key ext w req h"
  by (simp add: PushRecord_key_def cong: option.case_cong sum.case_cong)

lemma PushRecord_accepted_or_changed:
  assumes "PushRecord ext w req = (res, w1)"
      and "(\<exists>rep. res = Inr rep) \<or> w1 \<noteq> w"
  shows "\<exists>h reqpk k rec. req_Header req = Some h \<and> requestPubKey ext req = Inr reqpk
      \<and> verifyRequestSignature ext (req_Record req) reqpk (hdr_Signature h) = None
      \<and> PushRecord_key ext w req h = Inr (Some k)
      \<and> recordFromProto ext (req_Record req) k = Inr rec
      \<and> PushRecord_admit ext w req h rec = (res, w1)"
  using assms
  by (auto simp: PushRecord_def split: option.splits sum.splits)

lemma requestPubKey_Inr:
  assumes "req_Header req = Some h" "requestPubKey ext req = Inr pk"
  shows "\<exists>from. hdr_From h = Some from
      \<and> (hdr_Key h = Some pk \<and> MatchesPublicKey ext from pk
         \<or> hdr_Key h = None \<and> ExtractPublicKey ext from = Inr (Some pk))"
  using assms
  by (auto simp: requestPubKey_def split: option.splits sum.splits if_splits)

lemma verifyRequestSignature_None:
  assumes "verifyRequestSignature ext r pk sg = None"
  shows "\<exists>payload. Record_Marshal ext r = Inr payload \<and> PubKey_Verify ext pk payload sg = (True, None)"
  using assms
  by (auto simp: verifyRequestSignature_def split: sum.splits prod.splits if_splits)

subsection \<open>The loop and the role assignment of the new-log merger\<close>

lemma new_events_append [simp]: "new_events w (w @ evs) = evs"
  by (simp add: new_events_def)

lemma new_events_append2 [simp]: "new_events w ((w @ evs) @ evs') = evs @ evs'"
  by (simp add: new_events_def)

lemma handleNewLogs_loop_ok:
  "handleNewLogs_loop ext w tid lid rec lgs = (None, w1) \<Longrightarrow> w1 = w @ entry_events tid lgs"
proof (induction lgs arbitrary: w)
  case Nil
  then show ?case by (simp add: entry_events_def)
next
  case (Cons lg lgs)
  from Cons.prems have
    "handleNewLogs_loop ext (w @ [AddLog tid lg, Go_pullHistory tid (log_ID lg)]) tid lid rec lgs
       = (None, w1)"
    by (simp split: if_splits option.splits)
  from Cons.IH [OF this] show ?case by (simp add: entry_events_def)
qed




lemma handleNewLogs_key_newThread:
  "handleNewLogs_key ext w tid kid ti = Inr (k, newThread) \<Longrightarrow> newThread = (ti_Logs ti = [])"
  by (auto simp: handleNewLogs_key_def split: if_splits sum.splits option.splits)

lemma handleNewLogs_unfold:
  assumes "cbor_EventFromRecord ext w rec = Inr event"
      and "store_ThreadInfo ext w tid = Inr ti"
      and "handleNewLogs_key ext w tid kid ti = Inr (k, newThread)"
      and "event_GetBody ext w event k = Inr body"
      and "cbor_LogsFromNode ext body = Inr lgs"
  shows "handleNewLogs ext w tid lid kid rec =
     (case handleNewLogs_loop ext w tid lid rec (doc_Logs lgs) of
        (Some e, w1) \<Rightarrow> ((None, None, Some e), w1)
      | (None, w1) \<Rightarrow> handleNewLogs_roles ext w1 tid lid lgs newThread)"
  using assms by (simp add: handleNewLogs_def)

lemma handleNewLogs_roles_cases:
  assumes "handleNewLogs_roles ext w tid lid lgs newThread = ((own, na, err), w1)"
  shows "(own \<noteq> None \<longrightarrow> doc_Readable lgs \<and> newThread)
       \<and> (\<not> doc_Readable lgs \<and> err = None \<longrightarrow>
            (\<exists>a. NewMultiaddr ext (''/p2p/'' @ peerString (host_ID ext)) = Inr a
                 \<and> na = Some a
                 \<and> store_AddAddr ext w tid lid a PermanentAddrTTL = None
                 \<and> w1 = w @ [AddAddr tid lid a PermanentAddrTTL]
                          @ (if newThread then [Go_subscribe tid] else [])))
       \<and> (doc_Readable lgs \<and> \<not> newThread \<longrightarrow> na = None \<and> err = None \<and> w1 = w)
       \<and> (\<not> newThread \<longrightarrow> (\<forall>t. Go_subscribe t \<notin> set (new_events w w1)))"
  using assms
  by (auto simp: handleNewLogs_roles_def P_P2P_Name_def new_events_def
           split: if_splits sum.splits option.splits prod.splits)

subsection \<open>The tail of PushRecord\<close>

lemma PushRecord_merge_accepted:
  assumes "PushRecord_merge ext w h tid lid rec = (Inr rep, w1)"
  shows "\<exists>w'. w1 = w' @ [PutRecord rec tid lid] \<and> threads_PutRecord ext w' rec tid lid = None"
  using assms
  by (auto simp: PushRecord_merge_def PushRecord_put_def
           split: sum.splits option.splits prod.splits)

lemma PushRecord_merge_ownLog:
  assumes "store_PubKey ext w tid lid = Inr None"
      and "handleNewLogs ext w tid lid (case hdr_ReadKeyLogID h of Some k \<Rightarrow> k | None \<Rightarrow> PeerID []) rec
             = ((Some own, newAddr, None), w')"
      and "PushRecord_merge ext w h tid lid rec = (Inr rep, w1)"
  shows "\<exists>lgs. cbor_NewLogs ext [own] True = Inr lgs
            \<and> threads_AddRecord ext w' lgs tid lid = None
            \<and> threads_PutRecord ext (w' @ [AddRecord lgs tid lid]) rec tid lid = None
            \<and> w1 = w' @ [AddRecord lgs tid lid, PutRecord rec tid lid]
            \<and> rep = \<lparr>reply_NewAddr = newAddr\<rparr>"
  using assms
  by (auto simp: PushRecord_merge_def PushRecord_put_def split: sum.splits option.splits)

lemma PushRecord_unfold:
  assumes "req_Header req = Some h"
      and "requestPubKey ext req = Inr reqpk"
      and "verifyRequestSignature ext (req_Record req) reqpk (hdr_Signature h) = None"
      and "PushRecord_key ext w req h = Inr (Some k)"
      and "recordFromProto ext (req_Record req) k = Inr rec"
  shows "PushRecord ext w req = PushRecord_admit ext w req h rec"
  using assms by (simp add: PushRecord_def)

subsection \<open>Runs of the small instance\<close>

lemmas demo_eval =
  PushRecord_def requestPubKey_def verifyRequestSignature_def PushRecord_key_def
  recordFromProto_def PushRecord_admit_def PushRecord_merge_def PushRecord_put_def
  handleNewLogs_def handleNewLogs_key_def handleNewLogs_roles_def
  demo_sel demo_entry_sel demo_doc_def demo_request_def demo_log_def P_P2P_Name_def

lemma demo_run_follow:
  "PushRecord demo [] (demo_request ''A'' ''follow'') =
     (Inr \<lparr>reply_NewAddr = Some ''/p2p/B''\<rparr>,
      [AddLog ''t'' (demo_entry ''A'' None), Go_pullHistory ''t'' (PeerID ''A''),
       AddAddr ''t'' (PeerID ''A'') ''/p2p/B'' PermanentAddrTTL, Go_subscribe ''t'',
       PutRecord ''follow'' ''t'' (PeerID ''A'')])"
  by (simp add: demo_eval)

lemma demo_run_read:
  "PushRecord demo [] (demo_request ''A'' ''read'') =
     (Inr \<lparr>reply_NewAddr = None\<rparr>,
      [AddLog ''t'' (demo_entry ''A'' (Some ''rkA'')), Go_pullHistory ''t'' (PeerID ''A''),
       CreateLog, AddLog ''t'' (demo_entry ''Bown'' (Some ''rkBown'')), Go_subscribe ''t'',
       AddRecord ''logs'' ''t'' (PeerID ''A''), PutRecord ''read'' ''t'' (PeerID ''A'')])"
  by (simp add: demo_eval)


lemma demo_has_put: "demo_has (w @ [PutRecord r t l]) r"
  by (induction w r rule: demo_has.induct) simp_all

lemma demo_put_then_has: "put_then_has demo"
  by (simp add: put_then_has_def demo_sel demo_has_put)

subsection \<open>Outbound header construction\<close>

lemma pushRecord_request_header:
  assumes "pushRecord_request ext w rec tid lid settings = Inr (addrs, req)"
  shows "\<exists>h. req_Header req = Some h
           \<and> hdr_ReadKeyLogID h =
               (case store_ReadKey ext w (set_ThreadID settings) (set_KeyLog settings) of
                  Inr (Some k) \<Rightarrow> Some (set_KeyLog settings) | _ \<Rightarrow> None)
           \<and> (\<exists>logKey. store_ReadKey ext w (set_ThreadID settings) (set_KeyLog settings) = Inr logKey)"
  using assms
  by (auto simp: pushRecord_request_def split: sum.splits option.splits)

lemma pushRecord_events:
  assumes "pushRecord_request ext w rec tid lid settings = Inr (addrs, req)"
  shows "\<exists>evs. snd (pushRecord ext w rec tid lid settings) = w @ map (\<lambda>addr. Go_push addr req) addrs @ evs
     \<and> (\<forall>a r. Go_push a r \<notin> set evs)"
  using assms
  by (auto simp: pushRecord_def publish_def split: sum.splits option.splits prod.splits)

subsection \<open>Properties of the replication service\<close>

text \<open>
  C1. \<^verbatim>\<open>PushRecord\<close> is idempotent. For a request that passes the header, signature
  and key checks and decodes to a record: if the record's CID is already in the block
  store (\<^verbatim>\<open>bstore.Has\<close> returns true), \<^verbatim>\<open>PushRecord\<close> returns a success reply with
  an empty \<^verbatim>\<open>NewAddr\<close> and leaves the world as it was, so there is no new-log merge, no
  log-update merge, no \<^verbatim>\<open>PutRecord\<close> and no \<^verbatim>\<open>AddRecord\<close>. Hence, over a block store
  that has a record once \<^verbatim>\<open>PutRecord\<close> has succeeded, a second push of a request that
  was accepted (and still selects the same key) returns success and adds nothing to
  what the first push did.
\<close>

theorem PushRecord_idempotent:
  assumes hdr: "req_Header req = Some h"
      and pk: "requestPubKey ext req = Inr reqpk"
      and sg: "verifyRequestSignature ext (req_Record req) reqpk (hdr_Signature h) = None"
      and key: "PushRecord_key ext w req h = Inr (Some k)"
      and dec: "recordFromProto ext (req_Record req) k = Inr rec"
  shows "(bstore_Has ext w (record_Cid ext rec) = Inr True \<longrightarrow>
            PushRecord ext w req = (Inr \<lparr>reply_NewAddr = None\<rparr>, w))
       \<and> (\<forall>rep w1. PushRecord ext w req = (Inr rep, w1) \<and> put_then_has ext
              \<and> PushRecord_key ext w1 req h = Inr (Some k) \<longrightarrow>
            PushRecord ext w1 req = (Inr \<lparr>reply_NewAddr = None\<rparr>, w1))"
proof -
  have known: "PushRecord ext v req = (Inr \<lparr>reply_NewAddr = None\<rparr>, v)"
    if "PushRecord_key ext v req h = Inr (Some k)"
      and "bstore_Has ext v (record_Cid ext rec) = Inr True" for v
    using that by (simp add: PushRecord_unfold [OF hdr pk sg that(1) dec] PushRecord_admit_def)
  have twice: "PushRecord ext w1 req = (Inr \<lparr>reply_NewAddr = None\<rparr>, w1)"
    if first: "PushRecord ext w req = (Inr rep, w1)"
      and contract: "put_then_has ext"
      and key1: "PushRecord_key ext w1 req h = Inr (Some k)" for rep w1
  proof -
    from first have admit: "PushRecord_admit ext w req h rec = (Inr rep, w1)"
      by (simp add: PushRecord_unfold [OF hdr pk sg key dec])
    have "bstore_Has ext w1 (record_Cid ext rec) = Inr True"
    proof (cases "bstore_Has ext w (record_Cid ext rec) = Inr True")
      case True
      with admit show ?thesis by (simp add: PushRecord_admit_def)
    next
      case False
      with admit obtain tid lid where "PushRecord_merge ext w h tid lid rec = (Inr rep, w1)"
        by (auto simp: PushRecord_admit_def split: sum.splits bool.splits option.splits)
      from PushRecord_merge_accepted [OF this] obtain w' where
        "w1 = w' @ [PutRecord rec tid lid]" and "threads_PutRecord ext w' rec tid lid = None"
        by blast
      with contract show ?thesis by (simp add: put_then_has_def)
    qed
    with key1 show ?thesis by (rule known)
  qed
  from known [OF key] twice show ?thesis by blast
qed

theorem PushRecord_idempotent_witness:
  "PushRecord demo [] (demo_request ''A'' ''follow'') =
     (Inr \<lparr>reply_NewAddr = Some ''/p2p/B''\<rparr>,
      [AddLog ''t'' (demo_entry ''A'' None), Go_pullHistory ''t'' (PeerID ''A''),
       AddAddr ''t'' (PeerID ''A'') ''/p2p/B'' PermanentAddrTTL, Go_subscribe ''t'',
       PutRecord ''follow'' ''t'' (PeerID ''A'')])
   \<and> PushRecord demo
       [AddLog ''t'' (demo_entry ''A'' None), Go_pullHistory ''t'' (PeerID ''A''),
        AddAddr ''t'' (PeerID ''A'') ''/p2p/B'' PermanentAddrTTL, Go_subscribe ''t'',
        PutRecord ''follow'' ''t'' (PeerID ''A'')]
       (demo_request ''A'' ''follow'') =
     (Inr \<lparr>reply_NewAddr = None\<rparr>,
      [AddLog ''t'' (demo_entry ''A'' None), Go_pullHistory ''t'' (PeerID ''A''),
       AddAddr ''t'' (PeerID ''A'') ''/p2p/B'' PermanentAddrTTL, Go_subscribe ''t'',
       PutRecord ''follow'' ''t'' (PeerID ''A'')])
   \<and> put_then_has demo"
proof -
  let ?h = "\<lparr>hdr_From = Some (PeerID ''A''), hdr_Signature = ''Afollow'', hdr_Key = Some ''A'',
          hdr_FollowKey = Some (ProtoKey (Some ''fkA'')), hdr_ReadKeyLogID = None\<rparr>"
  let ?req = "demo_request ''A'' ''follow''"
  have hdr: "req_Header ?req = Some ?h"
    by (simp add: demo_request_def)
  have pk: "requestPubKey demo ?req = Inr ''A''"
    by (simp add: requestPubKey_def demo_request_def demo_sel)
  have sg: "verifyRequestSignature demo (req_Record ?req) ''A'' (hdr_Signature ?h) = None"
    by (simp add: verifyRequestSignature_def demo_request_def demo_sel)
  have key: "PushRecord_key demo v ?req ?h = Inr (Some (HeaderKey (ProtoKey (Some ''fkA''))))" for v
    by (simp add: PushRecord_key_def)
  have dec: "recordFromProto demo (req_Record ?req) (HeaderKey (ProtoKey (Some ''fkA''))) = Inr ''follow''"
    by (simp add: recordFromProto_def demo_request_def demo_sel)
  from PushRecord_idempotent [OF hdr pk sg key dec] demo_run_follow demo_put_then_has key
  show ?thesis by simp
qed

text \<open>
  C2 fails on the code: in the branch of \<^verbatim>\<open>PushRecord\<close> for an unknown log the
  follow-up \<^verbatim>\<open>AddRecord\<close> (lines 161-175) is issued before \<^verbatim>\<open>PutRecord\<close>
  (lines 187-193). In this run a readable document for a new thread makes the peer
  create its own log; the membership record is broadcast first and the incoming record
  is persisted last.
\<close>

theorem PushRecord_persist_before_broadcast_counterexample:
  "PushRecord demo [] (demo_request ''A'' ''read'') =
     (Inr \<lparr>reply_NewAddr = None\<rparr>,
      [AddLog ''t'' (demo_entry ''A'' (Some ''rkA'')), Go_pullHistory ''t'' (PeerID ''A''),
       CreateLog, AddLog ''t'' (demo_entry ''Bown'' (Some ''rkBown'')), Go_subscribe ''t'',
       AddRecord ''logs'' ''t'' (PeerID ''A''), PutRecord ''read'' ''t'' (PeerID ''A'')])
   \<and> \<not> occurs_before (PutRecord ''read'' ''t'' (PeerID ''A'')) (AddRecord ''logs'' ''t'' (PeerID ''A''))
         (snd (PushRecord demo [] (demo_request ''A'' ''read'')))
   \<and> occurs_before (AddRecord ''logs'' ''t'' (PeerID ''A'')) (PutRecord ''read'' ''t'' (PeerID ''A''))
         (snd (PushRecord demo [] (demo_request ''A'' ''read'')))"
  by (simp add: demo_run_read occurs_before_def)

text \<open>
  C2, as the code has it. For every accepted record that produces an \<open>ownLog\<close>, the
  follow-up broadcast advertising \<open>ownLog\<close> is issued through \<^verbatim>\<open>AddRecord\<close> first, and
  the record is written through \<^verbatim>\<open>PutRecord\<close> after it: the push ends with the
  successful \<^verbatim>\<open>AddRecord\<close> call followed by the successful \<^verbatim>\<open>PutRecord\<close> call.
\<close>

theorem PushRecord_broadcast_then_persist:
  assumes hdr: "req_Header req = Some h"
      and key: "PushRecord_key ext w req h = Inr (Some k)"
      and dec: "recordFromProto ext (req_Record req) k = Inr rec"
      and fresh: "bstore_Has ext w (record_Cid ext rec) = Inr False"
      and tid: "req_ThreadID req = Some tid"
      and lid: "req_LogID req = Some lid"
      and newlog: "store_PubKey ext w tid lid = Inr None"
      and own: "handleNewLogs ext w tid lid
                  (case hdr_ReadKeyLogID h of Some k \<Rightarrow> k | None \<Rightarrow> PeerID []) rec
                  = ((Some own, newAddr, None), w')"
      and accepted: "PushRecord ext w req = (Inr rep, w1)"
  shows "\<exists>lgs. cbor_NewLogs ext [own] True = Inr lgs
            \<and> threads_AddRecord ext w' lgs tid lid = None
            \<and> threads_PutRecord ext (w' @ [AddRecord lgs tid lid]) rec tid lid = None
            \<and> w1 = w' @ [AddRecord lgs tid lid, PutRecord rec tid lid]
            \<and> rep = \<lparr>reply_NewAddr = newAddr\<rparr>"
proof -
  from PushRecord_accepted_or_changed [OF accepted] hdr key dec
  have "PushRecord_admit ext w req h rec = (Inr rep, w1)"
    by auto
  with fresh tid lid have "PushRecord_merge ext w h tid lid rec = (Inr rep, w1)"
    by (simp add: PushRecord_admit_def)
  from PushRecord_merge_ownLog [OF newlog own this] show ?thesis .
qed

theorem PushRecord_broadcast_then_persist_witness:
  "handleNewLogs demo [] ''t'' (PeerID ''A'') (PeerID []) ''read''
     = ((Some (demo_entry ''Bown'' (Some ''rkBown'')), None, None),
        [AddLog ''t'' (demo_entry ''A'' (Some ''rkA'')), Go_pullHistory ''t'' (PeerID ''A''),
         CreateLog, AddLog ''t'' (demo_entry ''Bown'' (Some ''rkBown'')), Go_subscribe ''t''])
   \<and> snd (PushRecord demo [] (demo_request ''A'' ''read''))
     = [AddLog ''t'' (demo_entry ''A'' (Some ''rkA'')), Go_pullHistory ''t'' (PeerID ''A''),
        CreateLog, AddLog ''t'' (demo_entry ''Bown'' (Some ''rkBown'')), Go_subscribe ''t'']
       @ [AddRecord ''logs'' ''t'' (PeerID ''A''), PutRecord ''read'' ''t'' (PeerID ''A'')]"
proof -
  let ?h = "\<lparr>hdr_From = Some (PeerID ''A''), hdr_Signature = ''Aread'', hdr_Key = Some ''A'',
          hdr_FollowKey = Some (ProtoKey (Some ''fkA'')), hdr_ReadKeyLogID = None\<rparr>"
  let ?req = "demo_request ''A'' ''read''"
  let ?w' = "[AddLog ''t'' (demo_entry ''A'' (Some ''rkA'')), Go_pullHistory ''t'' (PeerID ''A''),
         CreateLog, AddLog ''t'' (demo_entry ''Bown'' (Some ''rkBown'')), Go_subscribe ''t'']"
  have hdr: "req_Header ?req = Some ?h"
    by (simp add: demo_request_def)
  have key: "PushRecord_key demo [] ?req ?h = Inr (Some (HeaderKey (ProtoKey (Some ''fkA''))))"
    by (simp add: PushRecord_key_def)
  have dec: "recordFromProto demo (req_Record ?req) (HeaderKey (ProtoKey (Some ''fkA''))) = Inr ''read''"
    by (simp add: recordFromProto_def demo_request_def demo_sel)
  have fresh: "bstore_Has demo [] (record_Cid demo ''read'') = Inr False"
    by (simp add: demo_sel)
  have tid: "req_ThreadID ?req = Some ''t''" and lid: "req_LogID ?req = Some (PeerID ''A'')"
    by (simp_all add: demo_request_def)
  have newlog: "store_PubKey demo [] ''t'' (PeerID ''A'') = Inr None"
    by (simp add: demo_sel demo_log_def)
  have own: "handleNewLogs demo [] ''t'' (PeerID ''A'')
                  (case hdr_ReadKeyLogID ?h of Some k \<Rightarrow> k | None \<Rightarrow> PeerID []) ''read''
                  = ((Some (demo_entry ''Bown'' (Some ''rkBown'')), None, None), ?w')"
    by (simp add: demo_eval)
  from PushRecord_broadcast_then_persist [OF hdr key dec fresh tid lid newlog own demo_run_read] own
  show ?thesis by (simp add: demo_sel demo_run_read)
qed

text \<open>
  C3. New-log bootstrap role assignment. For every Logs document that
  \<^verbatim>\<open>handleNewLogs\<close> decodes: if the document is not readable, no \<open>ownLog\<close> is
  produced, and when the merger returns without error the multiaddress made from
  \<^verbatim>\<open>/p2p/<this-peer-id>\<close> is returned as \<open>newAddr\<close> and has been registered in the
  directory as a permanent address of the sender's log, right after the upserts of
  the document's entries (and before the subscription is started when the thread is
  new). An \<open>ownLog\<close> is produced only when the document is readable and the thread has
  no log at this peer.
\<close>

theorem handleNewLogs_role_assignment:
  assumes ev: "cbor_EventFromRecord ext w rec = Inr event"
      and ti: "store_ThreadInfo ext w tid = Inr ti"
      and key: "handleNewLogs_key ext w tid kid ti = Inr (k, newThread)"
      and body: "event_GetBody ext w event k = Inr body"
      and doc: "cbor_LogsFromNode ext body = Inr lgs"
      and run: "handleNewLogs ext w tid lid kid rec = ((ownLog, newAddr, err), w1)"
  shows "(\<not> doc_Readable lgs \<longrightarrow> ownLog = None)
       \<and> (\<not> doc_Readable lgs \<and> err = None \<longrightarrow>
            (\<exists>a. NewMultiaddr ext (''/p2p/'' @ peerString (host_ID ext)) = Inr a
                 \<and> newAddr = Some a
                 \<and> new_events w w1 = entry_events tid (doc_Logs lgs)
                       @ [AddAddr tid lid a PermanentAddrTTL]
                       @ (if ti_Logs ti = [] then [Go_subscribe tid] else [])))
       \<and> (ownLog \<noteq> None \<longrightarrow> doc_Readable lgs \<and> ti_Logs ti = [])"
proof (cases "handleNewLogs_loop ext w tid lid rec (doc_Logs lgs)")
  case (Pair lerr w0)
  note nt = handleNewLogs_key_newThread [OF key]
  show ?thesis
  proof (cases lerr)
    case (Some e)
    with Pair run handleNewLogs_unfold [OF ev ti key body doc, of lid]
    have "ownLog = None \<and> newAddr = None \<and> err = Some e \<and> w1 = w0" by simp
    then show ?thesis by simp
  next
    case None
    with Pair have w0: "w0 = w @ entry_events tid (doc_Logs lgs)"
      using handleNewLogs_loop_ok by blast
    from None Pair run handleNewLogs_unfold [OF ev ti key body doc, of lid]
    have roles: "handleNewLogs_roles ext w0 tid lid lgs newThread = ((ownLog, newAddr, err), w1)"
      by simp
    from handleNewLogs_roles_cases [OF roles] nt w0
    show ?thesis by auto
  qed
qed

theorem handleNewLogs_role_assignment_witness:
  "handleNewLogs demo [] ''t'' (PeerID ''A'') (PeerID []) ''follow''
     = ((None, Some ''/p2p/B'', None),
        [AddLog ''t'' (demo_entry ''A'' None), Go_pullHistory ''t'' (PeerID ''A''),
         AddAddr ''t'' (PeerID ''A'') ''/p2p/B'' PermanentAddrTTL, Go_subscribe ''t''])
   \<and> doc_Readable \<lparr>doc_Logs = [demo_entry ''A'' None], doc_Readable = False\<rparr> = False
   \<and> NewMultiaddr demo (''/p2p/'' @ peerString (host_ID demo)) = Inr ''/p2p/B''"
proof -
  have ev: "cbor_EventFromRecord demo [] ''follow'' = Inr ''follow''"
    by (simp add: demo_sel)
  have ti: "store_ThreadInfo demo [] ''t'' = Inr \<lparr>ti_Logs = []\<rparr>"
    by (simp add: demo_sel)
  have key: "handleNewLogs_key demo [] ''t'' (PeerID []) \<lparr>ti_Logs = []\<rparr> = Inr (HostKey ''B'', True)"
    by (simp add: handleNewLogs_key_def demo_sel)
  have body: "event_GetBody demo [] ''follow'' (HostKey ''B'') = Inr ''follow''"
    by (simp add: demo_sel)
  have doc: "cbor_LogsFromNode demo ''follow''
               = Inr \<lparr>doc_Logs = [demo_entry ''A'' None], doc_Readable = False\<rparr>"
    by (simp add: demo_sel demo_doc_def)
  have run: "handleNewLogs demo [] ''t'' (PeerID ''A'') (PeerID []) ''follow''
     = ((None, Some ''/p2p/B'', None),
        [AddLog ''t'' (demo_entry ''A'' None), Go_pullHistory ''t'' (PeerID ''A''),
         AddAddr ''t'' (PeerID ''A'') ''/p2p/B'' PermanentAddrTTL, Go_subscribe ''t''])"
    by (simp add: handleNewLogs_unfold [OF ev ti key body doc] handleNewLogs_roles_def
          demo_sel demo_entry_sel P_P2P_Name_def)
  from handleNewLogs_role_assignment [OF ev ti key body doc run] run
  show ?thesis by (simp add: demo_sel)
qed




text \<open>
  C5. Envelope key selection in \<^verbatim>\<open>PushRecord\<close>, for a request that has passed the
  header and signature checks. If \<^verbatim>\<open>header.FollowKey\<close> is set, the record is decoded
  with it and processing goes on with the decoded record. Otherwise the key is looked
  up in the directory under the request's thread and log, and the record is decoded
  with the key found. If the directory has no key, \<^verbatim>\<open>PushRecord\<close> fails with
  "follow key not found"; if the lookup fails, with the lookup's error. In both cases
  the world is unchanged (nothing merged or persisted), and the outcome is the same
  whatever the decoder is, so the record is not decoded. The same holds for a request
  without a follow key whose \<^verbatim>\<open>ThreadID\<close> or \<^verbatim>\<open>LogID\<close> pointer is nil: the
  lookup dereferences it and the handler panics.
\<close>

theorem PushRecord_envelope_key:
  assumes hdr: "req_Header req = Some h"
      and pk: "requestPubKey ext req = Inr reqpk"
      and sg: "verifyRequestSignature ext (req_Record req) reqpk (hdr_Signature h) = None"
  shows "(\<forall>fk. hdr_FollowKey h = Some fk \<longrightarrow>
            PushRecord ext w req =
              (case recordFromProto ext (req_Record req) (HeaderKey fk) of
                 Inl e \<Rightarrow> (Inl (Error e), w)
               | Inr rec \<Rightarrow> PushRecord_admit ext w req h rec))
       \<and> (\<forall>tid lid k. hdr_FollowKey h = None \<and> req_ThreadID req = Some tid \<and> req_LogID req = Some lid
              \<and> store_FollowKey ext w tid lid = Inr (Some k) \<longrightarrow>
            PushRecord ext w req =
              (case recordFromProto ext (req_Record req) (DirectoryKey k) of
                 Inl e \<Rightarrow> (Inl (Error e), w)
               | Inr rec \<Rightarrow> PushRecord_admit ext w req h rec))
       \<and> (\<forall>tid lid f. hdr_FollowKey h = None \<and> req_ThreadID req = Some tid \<and> req_LogID req = Some lid
              \<and> store_FollowKey ext w tid lid = Inr None \<longrightarrow>
            PushRecord (ext\<lparr>cbor_RecordFromProto := f\<rparr>) w req
              = (Inl (Error (Err ''follow key not found'')), w))
       \<and> (\<forall>tid lid e f. hdr_FollowKey h = None \<and> req_ThreadID req = Some tid \<and> req_LogID req = Some lid
              \<and> store_FollowKey ext w tid lid = Inl e \<longrightarrow>
            PushRecord (ext\<lparr>cbor_RecordFromProto := f\<rparr>) w req = (Inl (Error e), w))
       \<and> (\<forall>f. hdr_FollowKey h = None \<and> (req_ThreadID req = None \<or> req_LogID req = None) \<longrightarrow>
            PushRecord (ext\<lparr>cbor_RecordFromProto := f\<rparr>) w req = (Inl nil_deref, w))"
proof -
  have a: "\<forall>fk. hdr_FollowKey h = Some fk \<longrightarrow>
            PushRecord ext w req =
              (case recordFromProto ext (req_Record req) (HeaderKey fk) of
                 Inl e \<Rightarrow> (Inl (Error e), w)
               | Inr rec \<Rightarrow> PushRecord_admit ext w req h rec)"
    using hdr pk sg by (simp add: PushRecord_def PushRecord_key_def)
  have b: "\<forall>tid lid k. hdr_FollowKey h = None \<and> req_ThreadID req = Some tid \<and> req_LogID req = Some lid
              \<and> store_FollowKey ext w tid lid = Inr (Some k) \<longrightarrow>
            PushRecord ext w req =
              (case recordFromProto ext (req_Record req) (DirectoryKey k) of
                 Inl e \<Rightarrow> (Inl (Error e), w)
               | Inr rec \<Rightarrow> PushRecord_admit ext w req h rec)"
    using hdr pk sg by (simp add: PushRecord_def PushRecord_key_def)
  have c: "\<forall>tid lid f. hdr_FollowKey h = None \<and> req_ThreadID req = Some tid \<and> req_LogID req = Some lid
              \<and> store_FollowKey ext w tid lid = Inr None \<longrightarrow>
            PushRecord (ext\<lparr>cbor_RecordFromProto := f\<rparr>) w req
              = (Inl (Error (Err ''follow key not found'')), w)"
    using hdr pk sg by (auto simp: PushRecord_def PushRecord_key_def)
  have d: "\<forall>tid lid e f. hdr_FollowKey h = None \<and> req_ThreadID req = Some tid \<and> req_LogID req = Some lid
              \<and> store_FollowKey ext w tid lid = Inl e \<longrightarrow>
            PushRecord (ext\<lparr>cbor_RecordFromProto := f\<rparr>) w req = (Inl (Error e), w)"
    using hdr pk sg by (auto simp: PushRecord_def PushRecord_key_def)
  have e: "\<forall>f. hdr_FollowKey h = None \<and> (req_ThreadID req = None \<or> req_LogID req = None) \<longrightarrow>
            PushRecord (ext\<lparr>cbor_RecordFromProto := f\<rparr>) w req = (Inl nil_deref, w)"
    using hdr pk sg by (auto simp: PushRecord_def PushRecord_key_def split: option.splits)
  from a b c d e show ?thesis by blast
qed

theorem PushRecord_envelope_key_witness:
  "PushRecord demo [] (demo_request ''A'' ''follow'')
     = PushRecord_admit demo [] (demo_request ''A'' ''follow'')
         \<lparr>hdr_From = Some (PeerID ''A''), hdr_Signature = ''Afollow'', hdr_Key = Some ''A'',
          hdr_FollowKey = Some (ProtoKey (Some ''fkA'')), hdr_ReadKeyLogID = None\<rparr> ''follow''
   \<and> PushRecord demo [AddLog ''t'' (demo_entry ''A'' None)] (demo_bare_request ''A'' ''follow'')
     = PushRecord_admit demo [AddLog ''t'' (demo_entry ''A'' None)] (demo_bare_request ''A'' ''follow'')
         \<lparr>hdr_From = Some (PeerID ''A''), hdr_Signature = ''Afollow'', hdr_Key = None,
          hdr_FollowKey = None, hdr_ReadKeyLogID = None\<rparr> ''follow''
   \<and> PushRecord (demo\<lparr>cbor_RecordFromProto := \<lambda>pb k. Inr ''other''\<rparr>) []
        (demo_bare_request ''A'' ''follow'')
     = (Inl (Error (Err ''follow key not found'')), [])"
proof -
  let ?h = "\<lparr>hdr_From = Some (PeerID ''A''), hdr_Signature = ''Afollow'', hdr_Key = Some ''A'',
          hdr_FollowKey = Some (ProtoKey (Some ''fkA'')), hdr_ReadKeyLogID = None\<rparr>"
  let ?b = "\<lparr>hdr_From = Some (PeerID ''A''), hdr_Signature = ''Afollow'', hdr_Key = None,
          hdr_FollowKey = None, hdr_ReadKeyLogID = None\<rparr>"
  let ?w = "[AddLog ''t'' (demo_entry ''A'' None)]"
  have hdr: "req_Header (demo_request ''A'' ''follow'') = Some ?h"
    by (simp add: demo_request_def)
  have pk: "requestPubKey demo (demo_request ''A'' ''follow'') = Inr ''A''"
    by (simp add: requestPubKey_def demo_request_def demo_sel)
  have sg: "verifyRequestSignature demo (req_Record (demo_request ''A'' ''follow'')) ''A''
              (hdr_Signature ?h) = None"
    by (simp add: verifyRequestSignature_def demo_request_def demo_sel)
  have bhdr: "req_Header (demo_bare_request ''A'' ''follow'') = Some ?b"
    by (simp add: demo_bare_request_def)
  have bpk: "requestPubKey demo (demo_bare_request ''A'' ''follow'') = Inr ''A''"
    by (simp add: requestPubKey_def demo_bare_request_def demo_sel)
  have bsg: "verifyRequestSignature demo (req_Record (demo_bare_request ''A'' ''follow'')) ''A''
              (hdr_Signature ?b) = None"
    by (simp add: verifyRequestSignature_def demo_bare_request_def demo_sel)
  have found: "store_FollowKey demo ?w ''t'' (PeerID ''A'') = Inr (Some ''fkA'')"
    by (simp add: demo_sel demo_log_def demo_entry_sel)
  have missing: "store_FollowKey demo [] ''t'' (PeerID ''A'') = Inr None"
    by (simp add: demo_sel demo_log_def)
  have ids: "req_ThreadID (demo_bare_request ''A'' ''follow'') = Some ''t''
           \<and> req_LogID (demo_bare_request ''A'' ''follow'') = Some (PeerID ''A'')
           \<and> req_Record (demo_bare_request ''A'' ''follow'') = ''follow''
           \<and> req_Record (demo_request ''A'' ''follow'') = ''follow''"
    by (simp add: demo_bare_request_def demo_request_def)
  have dec: "recordFromProto demo ''follow'' k = Inr ''follow''" for k
    by (simp add: recordFromProto_def demo_sel)
  from PushRecord_envelope_key [OF hdr pk sg, of "[]"]
  have one: "PushRecord demo [] (demo_request ''A'' ''follow'')
     = PushRecord_admit demo [] (demo_request ''A'' ''follow'') ?h ''follow''"
    by (simp add: ids dec)
  from PushRecord_envelope_key [OF bhdr bpk bsg, of ?w] found ids
  have two: "PushRecord demo ?w (demo_bare_request ''A'' ''follow'')
     = PushRecord_admit demo ?w (demo_bare_request ''A'' ''follow'') ?b ''follow''"
    by (simp add: dec)
  from PushRecord_envelope_key [OF bhdr bpk bsg, of "[]"] missing ids
  have three: "PushRecord (demo\<lparr>cbor_RecordFromProto := \<lambda>pb k. Inr ''other''\<rparr>) []
        (demo_bare_request ''A'' ''follow'')
     = (Inl (Error (Err ''follow key not found'')), [])"
    by simp
  from one two three show ?thesis by simp
qed

text \<open>
  C6. Signer resolution in \<^verbatim>\<open>PushRecord\<close>, for a request with a header. If
  \<^verbatim>\<open>header.Key\<close> is present and \<^verbatim>\<open>header.From\<close> does not match it, the request is
  rejected with an error and the world is unchanged. If \<^verbatim>\<open>header.Key\<close> is absent and
  no key can be extracted from \<^verbatim>\<open>header.From\<close>, likewise. Whenever the request is
  accepted, or changes the world at all, the signer key was resolved by that rule
  (the attached key that \<^verbatim>\<open>From\<close> matches, or else the key extracted from
  \<^verbatim>\<open>From\<close>) and \<^verbatim>\<open>header.Signature\<close> verified under it over the serialised record.
  A request whose \<^verbatim>\<open>From\<close> pointer is nil makes the handler panic at the dereference,
  before any effect.
\<close>

theorem PushRecord_signer:
  assumes hdr: "req_Header req = Some h"
      and run: "PushRecord ext w req = (res, w1)"
  shows "(\<forall>k from. hdr_Key h = Some k \<and> hdr_From h = Some from \<and> \<not> MatchesPublicKey ext from k
            \<longrightarrow> (\<exists>e. res = Inl (Error e)) \<and> w1 = w)
       \<and> (\<forall>from. hdr_Key h = None \<and> hdr_From h = Some from
              \<and> (\<forall>pk. ExtractPublicKey ext from \<noteq> Inr (Some pk))
            \<longrightarrow> (\<exists>e. res = Inl (Error e)) \<and> w1 = w)
       \<and> (hdr_From h = None \<longrightarrow> res = Inl nil_deref \<and> w1 = w)
       \<and> ((\<exists>rep. res = Inr rep) \<or> w1 \<noteq> w \<longrightarrow>
            (\<exists>from pk payload. hdr_From h = Some from
               \<and> (hdr_Key h = Some pk \<and> MatchesPublicKey ext from pk
                  \<or> hdr_Key h = None \<and> ExtractPublicKey ext from = Inr (Some pk))
               \<and> Record_Marshal ext (req_Record req) = Inr payload
               \<and> PubKey_Verify ext pk payload (hdr_Signature h) = (True, None)))"
proof -
  have a: "\<forall>k from. hdr_Key h = Some k \<and> hdr_From h = Some from \<and> \<not> MatchesPublicKey ext from k
            \<longrightarrow> (\<exists>e. res = Inl (Error e)) \<and> w1 = w"
    using hdr run by (auto simp: PushRecord_def requestPubKey_def)
  have b: "\<forall>from. hdr_Key h = None \<and> hdr_From h = Some from
              \<and> (\<forall>pk. ExtractPublicKey ext from \<noteq> Inr (Some pk))
            \<longrightarrow> (\<exists>e. res = Inl (Error e)) \<and> w1 = w"
    using hdr run by (auto simp: PushRecord_def requestPubKey_def split: sum.splits option.splits)
  have c: "hdr_From h = None \<longrightarrow> res = Inl nil_deref \<and> w1 = w"
    using hdr run by (auto simp: PushRecord_def requestPubKey_def split: option.splits)
  have d: "(\<exists>rep. res = Inr rep) \<or> w1 \<noteq> w \<longrightarrow>
            (\<exists>from pk payload. hdr_From h = Some from
               \<and> (hdr_Key h = Some pk \<and> MatchesPublicKey ext from pk
                  \<or> hdr_Key h = None \<and> ExtractPublicKey ext from = Inr (Some pk))
               \<and> Record_Marshal ext (req_Record req) = Inr payload
               \<and> PubKey_Verify ext pk payload (hdr_Signature h) = (True, None))"
  proof
    assume "(\<exists>rep. res = Inr rep) \<or> w1 \<noteq> w"
    from PushRecord_accepted_or_changed [OF run this] hdr obtain reqpk where
      pk: "requestPubKey ext req = Inr reqpk"
      and sg: "verifyRequestSignature ext (req_Record req) reqpk (hdr_Signature h) = None"
      by auto
    from requestPubKey_Inr [OF hdr pk] verifyRequestSignature_None [OF sg]
    show "\<exists>from pk payload. hdr_From h = Some from
               \<and> (hdr_Key h = Some pk \<and> MatchesPublicKey ext from pk
                  \<or> hdr_Key h = None \<and> ExtractPublicKey ext from = Inr (Some pk))
               \<and> Record_Marshal ext (req_Record req) = Inr payload
               \<and> PubKey_Verify ext pk payload (hdr_Signature h) = (True, None)"
      by blast
  qed
  from a b c d show ?thesis by blast
qed

theorem PushRecord_signer_witness:
  "PushRecord demo [] (demo_request ''A'' ''follow'') =
     (Inr \<lparr>reply_NewAddr = Some ''/p2p/B''\<rparr>,
      [AddLog ''t'' (demo_entry ''A'' None), Go_pullHistory ''t'' (PeerID ''A''),
       AddAddr ''t'' (PeerID ''A'') ''/p2p/B'' PermanentAddrTTL, Go_subscribe ''t'',
       PutRecord ''follow'' ''t'' (PeerID ''A'')])
   \<and> MatchesPublicKey demo (PeerID ''A'') ''A''
   \<and> PubKey_Verify demo ''A'' ''follow'' ''Afollow'' = (True, None)
   \<and> snd (PushRecord demo []
        \<lparr>req_Header = Some
           \<lparr>hdr_From = Some (PeerID ''A''), hdr_Signature = ''Xfollow'', hdr_Key = Some ''X'',
            hdr_FollowKey = Some (ProtoKey (Some ''fkA'')), hdr_ReadKeyLogID = None\<rparr>,
         req_ThreadID = Some ''t'', req_LogID = Some (PeerID ''A''), req_Record = ''follow''\<rparr>) = []
   \<and> MatchesPublicKey demo (PeerID ''A'') ''X'' = False"
proof -
  let ?h = "\<lparr>hdr_From = Some (PeerID ''A''), hdr_Signature = ''Afollow'', hdr_Key = Some ''A'',
          hdr_FollowKey = Some (ProtoKey (Some ''fkA'')), hdr_ReadKeyLogID = None\<rparr>"
  let ?g = "\<lparr>hdr_From = Some (PeerID ''A''), hdr_Signature = ''Xfollow'', hdr_Key = Some ''X'',
            hdr_FollowKey = Some (ProtoKey (Some ''fkA'')), hdr_ReadKeyLogID = None\<rparr>"
  let ?forged = "\<lparr>req_Header = Some ?g,
         req_ThreadID = Some ''t'', req_LogID = Some (PeerID ''A''), req_Record = ''follow''\<rparr>"
  have hdr: "req_Header (demo_request ''A'' ''follow'') = Some ?h"
    by (simp add: demo_request_def)
  have ghdr: "req_Header ?forged = Some ?g"
    by simp
  have mismatch: "\<not> MatchesPublicKey demo (PeerID ''A'') ''X''"
    by (simp add: demo_sel)
  obtain res w1 where forged: "PushRecord demo [] ?forged = (res, w1)"
    by (cases "PushRecord demo [] ?forged")
  from PushRecord_signer [OF ghdr forged] mismatch have "w1 = []"
    by simp
  with forged have rejected: "snd (PushRecord demo [] ?forged) = []"
    by simp
  from PushRecord_signer [OF hdr demo_run_follow] demo_run_follow rejected mismatch
  show ?thesis by (simp add: demo_sel)
qed

text \<open>
  C7 fails on the code for a message whose sender field does not parse as a peer
  identity (lines 590-594): the sender is not the local peer, yet the payload is
  neither decoded nor dispatched, and the loop is left by \<^verbatim>\<open>break\<close>, so the message
  that follows is never handled. Delivered alone, that second message is dispatched
  and accepted.
\<close>

theorem subscribe_loop_continues_counterexample:
  "subscribe_loop demo []
     [Inr \<lparr>msg_From = [], msg_Data = ''follow''\<rparr>, Inr \<lparr>msg_From = ''A'', msg_Data = ''follow''\<rparr>]
     = (Stopped, [Log_Error (Err ''empty peer id'')])
   \<and> subscribe_loop demo [] [Inr \<lparr>msg_From = ''A'', msg_Data = ''follow''\<rparr>]
     = (Waiting,
        [Log_Debug ''received multicast request from A'',
         AddLog ''t'' (demo_entry ''A'' None), Go_pullHistory ''t'' (PeerID ''A''),
         AddAddr ''t'' (PeerID ''A'') ''/p2p/B'' PermanentAddrTTL, Go_subscribe ''t'',
         PutRecord ''follow'' ''t'' (PeerID ''A'')])"
  by (simp add: demo_eval)

text \<open>
  C7, as the code has it. For a gossip message whose sender field parses as a peer
  identity: if the sender equals the local peer identity the message is discarded
  (the loop goes on in the same world, nothing is dispatched); otherwise the payload is
  decoded as a \<^verbatim>\<open>PushRecordRequest\<close> and handed to \<^verbatim>\<open>PushRecord\<close>, the handler of
  direct RPC; a decode error, or an error returned by the handler, is logged and the
  loop goes on with the next message. A message whose sender field does not parse is
  logged and ends the loop.
\<close>

theorem subscribe_loop_message:
  "(\<forall>from. IDFromBytes ext (msg_From msg) = Inr from \<and> peerString from = peerString (host_ID ext)
       \<longrightarrow> subscribe_loop ext w (Inr msg # ds) = subscribe_loop ext w ds)
   \<and> (\<forall>from e. IDFromBytes ext (msg_From msg) = Inr from
          \<and> peerString from \<noteq> peerString (host_ID ext)
          \<and> proto_Unmarshal ext (msg_Data msg) = Inl e
       \<longrightarrow> subscribe_loop ext w (Inr msg # ds) = subscribe_loop ext (w @ [Log_Error e]) ds)
   \<and> (\<forall>from req e w1. IDFromBytes ext (msg_From msg) = Inr from
          \<and> peerString from \<noteq> peerString (host_ID ext)
          \<and> proto_Unmarshal ext (msg_Data msg) = Inr req
          \<and> PushRecord ext
               (w @ [Log_Debug (''received multicast request from '' @ peerString from)]) req
              = (Inl (Error e), w1)
       \<longrightarrow> subscribe_loop ext w (Inr msg # ds) = subscribe_loop ext (w1 @ [Log_Error e]) ds)
   \<and> (\<forall>from req rep w1. IDFromBytes ext (msg_From msg) = Inr from
          \<and> peerString from \<noteq> peerString (host_ID ext)
          \<and> proto_Unmarshal ext (msg_Data msg) = Inr req
          \<and> PushRecord ext
               (w @ [Log_Debug (''received multicast request from '' @ peerString from)]) req
              = (Inr rep, w1)
       \<longrightarrow> subscribe_loop ext w (Inr msg # ds) = subscribe_loop ext w1 ds)
   \<and> (\<forall>e. IDFromBytes ext (msg_From msg) = Inl e
       \<longrightarrow> subscribe_loop ext w (Inr msg # ds) = (Stopped, w @ [Log_Error e]))"
  by simp

theorem subscribe_loop_message_witness:
  "subscribe_loop demo [] [Inr \<lparr>msg_From = ''B'', msg_Data = ''follow''\<rparr>] = (Waiting, [])
   \<and> subscribe_loop demo [] [Inr \<lparr>msg_From = ''A'', msg_Data = []\<rparr>]
       = (Waiting, [Log_Error (Err ''unexpected EOF'')])
   \<and> subscribe_loop demo [] [Inr \<lparr>msg_From = ''A'', msg_Data = ''junk''\<rparr>]
       = (Waiting, [Log_Debug ''received multicast request from A'',
                    Log_Error (Err ''not a logs document'')])
   \<and> subscribe_loop demo [] [Inr \<lparr>msg_From = ''A'', msg_Data = ''follow''\<rparr>]
       = (Waiting,
          [Log_Debug ''received multicast request from A'',
           AddLog ''t'' (demo_entry ''A'' None), Go_pullHistory ''t'' (PeerID ''A''),
           AddAddr ''t'' (PeerID ''A'') ''/p2p/B'' PermanentAddrTTL, Go_subscribe ''t'',
           PutRecord ''follow'' ''t'' (PeerID ''A'')])
   \<and> subscribe_loop demo [] [Inr \<lparr>msg_From = [], msg_Data = ''follow''\<rparr>]
       = (Stopped, [Log_Error (Err ''empty peer id'')])"
proof -
  have self: "IDFromBytes demo (msg_From \<lparr>msg_From = ''B'', msg_Data = ''follow''\<rparr>) = Inr (PeerID ''B'')
      \<and> peerString (PeerID ''B'') = peerString (host_ID demo)"
    by (simp add: demo_sel)
  have other: "IDFromBytes demo (msg_From \<lparr>msg_From = ''A'', msg_Data = d\<rparr>) = Inr (PeerID ''A'')
      \<and> peerString (PeerID ''A'') \<noteq> peerString (host_ID demo)" for d
    by (simp add: demo_sel)
  have eof: "proto_Unmarshal demo (msg_Data \<lparr>msg_From = ''A'', msg_Data = []\<rparr>) = Inl (Err ''unexpected EOF'')"
    by (simp add: demo_sel)
  have junk: "proto_Unmarshal demo (msg_Data \<lparr>msg_From = ''A'', msg_Data = ''junk''\<rparr>)
                = Inr (demo_request ''A'' ''junk'')"
    by (simp add: demo_sel)
  have junk_run: "PushRecord demo
                    ([] @ [Log_Debug (''received multicast request from '' @ peerString (PeerID ''A''))])
                    (demo_request ''A'' ''junk'')
                = (Inl (Error (Err ''not a logs document'')),
                   [Log_Debug ''received multicast request from A''])"
    by (simp add: demo_eval)
  have good: "proto_Unmarshal demo (msg_Data \<lparr>msg_From = ''A'', msg_Data = ''follow''\<rparr>)
                = Inr (demo_request ''A'' ''follow'')"
    by (simp add: demo_sel)
  have good_run: "PushRecord demo
                    ([] @ [Log_Debug (''received multicast request from '' @ peerString (PeerID ''A''))])
                    (demo_request ''A'' ''follow'')
                = (Inr \<lparr>reply_NewAddr = Some ''/p2p/B''\<rparr>,
                   [Log_Debug ''received multicast request from A'',
                    AddLog ''t'' (demo_entry ''A'' None), Go_pullHistory ''t'' (PeerID ''A''),
                    AddAddr ''t'' (PeerID ''A'') ''/p2p/B'' PermanentAddrTTL, Go_subscribe ''t'',
                    PutRecord ''follow'' ''t'' (PeerID ''A'')])"
    by (simp add: demo_eval)
  have unparsed: "IDFromBytes demo (msg_From \<lparr>msg_From = [], msg_Data = ''follow''\<rparr>)
                    = Inl (Err ''empty peer id'')"
    by (simp add: demo_sel)
  have "subscribe_loop demo [] [Inr \<lparr>msg_From = ''B'', msg_Data = ''follow''\<rparr>]
          = subscribe_loop demo [] []"
    using subscribe_loop_message [of demo "\<lparr>msg_From = ''B'', msg_Data = ''follow''\<rparr>" "[]" "[]"] self
    by blast
  then have one: "subscribe_loop demo [] [Inr \<lparr>msg_From = ''B'', msg_Data = ''follow''\<rparr>] = (Waiting, [])"
    by simp
  have "subscribe_loop demo [] [Inr \<lparr>msg_From = ''A'', msg_Data = []\<rparr>]
          = subscribe_loop demo ([] @ [Log_Error (Err ''unexpected EOF'')]) []"
    using subscribe_loop_message [of demo "\<lparr>msg_From = ''A'', msg_Data = []\<rparr>" "[]" "[]"] other eof
    by blast
  then have two: "subscribe_loop demo [] [Inr \<lparr>msg_From = ''A'', msg_Data = []\<rparr>]
       = (Waiting, [Log_Error (Err ''unexpected EOF'')])"
    by simp
  have "subscribe_loop demo [] [Inr \<lparr>msg_From = ''A'', msg_Data = ''junk''\<rparr>]
          = subscribe_loop demo ([Log_Debug ''received multicast request from A'']
                                   @ [Log_Error (Err ''not a logs document'')]) []"
    using subscribe_loop_message [of demo "\<lparr>msg_From = ''A'', msg_Data = ''junk''\<rparr>" "[]" "[]"]
      other junk junk_run
    by blast
  then have three: "subscribe_loop demo [] [Inr \<lparr>msg_From = ''A'', msg_Data = ''junk''\<rparr>]
       = (Waiting, [Log_Debug ''received multicast request from A'',
                    Log_Error (Err ''not a logs document'')])"
    by simp
  have "subscribe_loop demo [] [Inr \<lparr>msg_From = ''A'', msg_Data = ''follow''\<rparr>]
          = subscribe_loop demo
              [Log_Debug ''received multicast request from A'',
               AddLog ''t'' (demo_entry ''A'' None), Go_pullHistory ''t'' (PeerID ''A''),
               AddAddr ''t'' (PeerID ''A'') ''/p2p/B'' PermanentAddrTTL, Go_subscribe ''t'',
               PutRecord ''follow'' ''t'' (PeerID ''A'')] []"
    using subscribe_loop_message [of demo "\<lparr>msg_From = ''A'', msg_Data = ''follow''\<rparr>" "[]" "[]"]
      other good good_run
    by blast
  then have four: "subscribe_loop demo [] [Inr \<lparr>msg_From = ''A'', msg_Data = ''follow''\<rparr>]
       = (Waiting,
          [Log_Debug ''received multicast request from A'',
           AddLog ''t'' (demo_entry ''A'' None), Go_pullHistory ''t'' (PeerID ''A''),
           AddAddr ''t'' (PeerID ''A'') ''/p2p/B'' PermanentAddrTTL, Go_subscribe ''t'',
           PutRecord ''follow'' ''t'' (PeerID ''A'')])"
    by simp
  have "subscribe_loop demo [] [Inr \<lparr>msg_From = [], msg_Data = ''follow''\<rparr>]
          = (Stopped, [] @ [Log_Error (Err ''empty peer id'')])"
    using subscribe_loop_message [of demo "\<lparr>msg_From = [], msg_Data = ''follow''\<rparr>" "[]" "[]"] unparsed
    by blast
  then have five: "subscribe_loop demo [] [Inr \<lparr>msg_From = [], msg_Data = ''follow''\<rparr>]
       = (Stopped, [Log_Error (Err ''empty peer id'')])"
    by simp
  from one two three four five show ?thesis by simp
qed

text \<open>
  C8. Outbound header construction in \<^verbatim>\<open>pushRecord\<close>: whenever the request is built,
  its header carries \<^verbatim>\<open>ReadKeyLogID = settings.KeyLog\<close> if and only if the directory
  returns a read key for \<^verbatim>\<open>(settings.ThreadID, settings.KeyLog)\<close>, and leaves the
  field unset if and only if the directory returns none. Every goroutine that
  \<^verbatim>\<open>pushRecord\<close> starts pushes this request, to one of the collected addresses.
\<close>

theorem pushRecord_ReadKeyLogID:
  assumes "pushRecord_request ext w rec tid lid settings = Inr (addrs, req)"
  shows "\<exists>h. req_Header req = Some h
     \<and> (hdr_ReadKeyLogID h = Some (set_KeyLog settings)
          \<longleftrightarrow> (\<exists>k. store_ReadKey ext w (set_ThreadID settings) (set_KeyLog settings) = Inr (Some k)))
     \<and> (hdr_ReadKeyLogID h = None
          \<longleftrightarrow> store_ReadKey ext w (set_ThreadID settings) (set_KeyLog settings) = Inr None)
     \<and> (\<forall>a r. Go_push a r \<in> set (new_events w (snd (pushRecord ext w rec tid lid settings)))
            \<longrightarrow> r = req \<and> a \<in> set addrs)"
proof -
  from pushRecord_request_header [OF assms] obtain h logKey where
    h: "req_Header req = Some h"
    and rk: "hdr_ReadKeyLogID h =
               (case store_ReadKey ext w (set_ThreadID settings) (set_KeyLog settings) of
                  Inr (Some k) \<Rightarrow> Some (set_KeyLog settings) | _ \<Rightarrow> None)"
    and lk: "store_ReadKey ext w (set_ThreadID settings) (set_KeyLog settings) = Inr logKey"
    by blast
  from pushRecord_events [OF assms] obtain evs where
    evs: "snd (pushRecord ext w rec tid lid settings) = w @ map (\<lambda>addr. Go_push addr req) addrs @ evs"
    and no: "\<forall>a r. Go_push a r \<notin> set evs" by blast
  have pushes: "\<forall>a r. Go_push a r \<in> set (new_events w (snd (pushRecord ext w rec tid lid settings)))
            \<longrightarrow> r = req \<and> a \<in> set addrs"
    using no by (auto simp: new_events_def evs)
  show ?thesis
    using h rk lk pushes by (cases logKey) auto
qed

theorem pushRecord_ReadKeyLogID_witness:
  "pushRecord_request demo [AddLog ''t'' (demo_entry ''A'' (Some ''rkA''))] ''r'' ''t'' (PeerID ''Bown'')
       \<lparr>set_ThreadID = ''t'', set_KeyLog = PeerID ''A'', set_Addrs = []\<rparr>
     = Inr ([''/p2p/A''],
            \<lparr>req_Header = Some
               \<lparr>hdr_From = Some (PeerID ''B''), hdr_Signature = ''Br'', hdr_Key = Some ''B'',
                hdr_FollowKey = Some (ProtoKey None), hdr_ReadKeyLogID = Some (PeerID ''A'')\<rparr>,
             req_ThreadID = Some ''t'', req_LogID = Some (PeerID ''Bown''), req_Record = ''r''\<rparr>)
   \<and> store_ReadKey demo [AddLog ''t'' (demo_entry ''A'' (Some ''rkA''))] ''t'' (PeerID ''A'')
       = Inr (Some ''rkA'')"
proof -
  let ?w = "[AddLog ''t'' (demo_entry ''A'' (Some ''rkA''))]"
  let ?s = "\<lparr>set_ThreadID = ''t'', set_KeyLog = PeerID ''A'', set_Addrs = []\<rparr>"
  let ?req = "\<lparr>req_Header = Some
               \<lparr>hdr_From = Some (PeerID ''B''), hdr_Signature = ''Br'', hdr_Key = Some ''B'',
                hdr_FollowKey = Some (ProtoKey None), hdr_ReadKeyLogID = Some (PeerID ''A'')\<rparr>,
             req_ThreadID = Some ''t'', req_LogID = Some (PeerID ''Bown''), req_Record = ''r''\<rparr>"
  have rk: "store_ReadKey demo ?w ''t'' (PeerID ''A'') = Inr (Some ''rkA'')"
    by (simp add: demo_sel demo_log_def demo_entry_sel)
  have built: "pushRecord_request demo ?w ''r'' ''t'' (PeerID ''Bown'') ?s = Inr ([''/p2p/A''], ?req)"
    by (simp add: pushRecord_request_def demo_sel demo_log_def demo_entry_sel)
  from pushRecord_ReadKeyLogID [OF built] built rk
  show ?thesis by simp
qed



end
